theory Spec2Isabelle
  imports Main "HOL-Library.Signed_Division"
begin

unbundle bit_operations_syntax

section \<open>Tensor patterns\<close>

text \<open>
  This development embeds the pattern algebra of \<^verbatim>\<open>tensor/pattern-utils.cc\<close>,
  \<^verbatim>\<open>tensor/tensor-pattern-utils.h\<close> and \<^verbatim>\<open>tensor/pattern-extra-utils.cc\<close>.

  The C++ sources are a draft: several statements are not well-formed C++ (undeclared
  names, calls with a wrong number of arguments, a missing \<^verbatim>\<open>return\<close>).  The embedding
  follows two rules.
  \<^item> A statement that is well-formed C++ is translated as it is written, also where it is
    visibly a slip (a wrong operator, index variable or constant, arguments in an order
    that the implicit conversions happen to accept).
  \<^item> A statement that is not well-formed is read as the nearest well-formed one, and the
    reading is stated at the definition.

  \<^verbatim>\<open>int32\<close> and \<^verbatim>\<open>int64\<close> values are modelled as \<open>int\<close>.  Where the code
  computes in \<^verbatim>\<open>int32\<close> a value that may leave the 32-bit range (a product of two
  \<^verbatim>\<open>int32\<close>, a 64-bit value stored in an \<^verbatim>\<open>int32\<close>), the model applies \<open>int32\<close>,
  which wraps to the two's-complement range.  That is what the conversion does; for the
  product the C++ standard leaves the overflow undefined, and the wrap is what the
  32-bit multiplication of the machine gives.  Sums in \<^verbatim>\<open>int64\<close> are not wrapped.
  \<^verbatim>\<open>/\<close> and \<^verbatim>\<open>%\<close> are the truncating \<open>sdiv\<close> and \<open>smod\<close>.
\<close>

subsection \<open>Machine integers\<close>

text \<open>
  The value of an integer after conversion to \<^verbatim>\<open>int32\<close> and to \<^verbatim>\<open>uint32\<close>.
\<close>

definition int32 :: "int \<Rightarrow> int" where
  "int32 x = (x + 2147483648) mod 4294967296 - 2147483648"

definition uint32 :: "int \<Rightarrow> int" where
  "uint32 x = x mod 4294967296"

subsection \<open>The data type\<close>

text \<open>
  Modelled from the spec: the macro \<^verbatim>\<open>KALDI_TENSOR_MAX_AXES\<close> (also written
  \<^verbatim>\<open>KALDI_TENSOR_MAX_DIM\<close>) is not defined in the sources at hand; the specification
  fixes it to 5.
\<close>

definition KALDI_TENSOR_MAX_AXES :: nat where
  "KALDI_TENSOR_MAX_AXES = 5"

text \<open>
  Modelled from the spec: \<^verbatim>\<open>struct Pattern\<close> is declared in a header that is not among
  the sources.  Its fields are the ones the functions below use: \<^verbatim>\<open>num_axes\<close>, the arrays
  \<^verbatim>\<open>dims\<close> and \<^verbatim>\<open>strides\<close> of \<^verbatim>\<open>KALDI_TENSOR_MAX_AXES\<close> slots in the private
  (reversed) numbering, \<^verbatim>\<open>offset\<close> and the cached \<^verbatim>\<open>code\<close>.  The arrays are lists of
  length \<^verbatim>\<open>KALDI_TENSOR_MAX_AXES\<close>; \<open>num_axes\<close> is a count, hence a \<open>nat\<close>.
\<close>

record Pattern =
  num_axes :: nat
  dims :: "int list"
  strides :: "int list"
  offset :: int
  code :: int

text \<open>
  Modelled from the spec: \<^verbatim>\<open>IsValid\<close> is not among the sources.  The data model of the
  specification defines a valid pattern: at most \<^verbatim>\<open>MAX_AXES\<close> axes, every dim at least 1,
  stride 0 wherever the dim is 1, unused trailing slots holding dim 1 and stride 0, and no
  two axes with dim greater than 1 and the same stride.
\<close>

definition IsValid :: "Pattern \<Rightarrow> bool" where
  "IsValid p \<longleftrightarrow>
     num_axes p \<le> KALDI_TENSOR_MAX_AXES \<and>
     length (dims p) = KALDI_TENSOR_MAX_AXES \<and>
     length (strides p) = KALDI_TENSOR_MAX_AXES \<and>
     list_all (\<lambda>r. 1 < dims p ! r \<or> (dims p ! r = 1 \<and> strides p ! r = 0))
       [0..<KALDI_TENSOR_MAX_AXES] \<and>
     list_all (\<lambda>r. dims p ! r = 1 \<and> strides p ! r = 0)
       [num_axes p..<KALDI_TENSOR_MAX_AXES] \<and>
     list_all (\<lambda>r. list_all (\<lambda>q. r = q \<or> dims p ! r = 1 \<or> dims p ! q = 1 \<or>
                                  strides p ! r < strides p ! q \<or>
                                  strides p ! q < strides p ! r) [0..<num_axes p])
       [0..<num_axes p]"

text \<open>
  Modelled from the spec: the memory-index set of a pattern is the set of integers
  \<open>offset + \<Sum> index\<^sub>i * stride\<^sub>i\<close> with each \<open>index\<^sub>i\<close> ranging over \<open>[0, dim\<^sub>i)\<close>.
  \<open>mindexes\<close> enumerates it axis by axis.
\<close>

fun mindexes :: "(int \<times> int) list \<Rightarrow> int \<Rightarrow> int list" where
  "mindexes [] m = [m]"
| "mindexes ((dim, stride) # axes) m =
     concat (map (\<lambda>i. mindexes axes (m + i * stride)) [0..dim - 1])"

definition axes_of :: "Pattern \<Rightarrow> (int \<times> int) list" where
  "axes_of p = zip (take (num_axes p) (dims p)) (take (num_axes p) (strides p))"

definition MemoryIndexSet :: "Pattern \<Rightarrow> int set" where
  "MemoryIndexSet p = set (mindexes (axes_of p) (offset p))"

subsection \<open>Errors\<close>

text \<open>
  \<^verbatim>\<open>KALDI_ERR\<close> throws and \<^verbatim>\<open>KALDI_ASSERT\<close> aborts; undefined behaviour (a read or write
  outside an array, \<^verbatim>\<open>back()\<close> of an empty vector, a division by zero or of the least
  \<^verbatim>\<open>int32\<close> by -1, a shift by a negative count, the end of a function that has to
  return a value) is an error value of its own.  \<^verbatim>\<open>KALDI_PARANOID_ASSERT\<close> and the blocks
  under \<^verbatim>\<open>#ifdef KALDI_PARANOID\<close> are compiled out, as in a build without that macro.
  \<open>OutOfFuel\<close> is not an event of the program: it is the answer of a loop of the model that
  was given too few rounds.
\<close>

datatype error = KaldiError | AssertionFailed | UndefinedBehaviour | OutOfFuel

text \<open>
  \<^verbatim>\<open>a / b\<close> and \<^verbatim>\<open>a % b\<close> on two \<^verbatim>\<open>int32\<close> are undefined for \<^verbatim>\<open>b == 0\<close> and for
  the least \<^verbatim>\<open>int32\<close> divided by -1.
\<close>

definition div_undefined :: "int \<Rightarrow> int \<Rightarrow> bool" where
  "div_undefined a b \<longleftrightarrow> b = 0 \<or> (a = - 2147483648 \<and> b = - 1)"

subsection \<open>The pattern code\<close>

text \<open>
  \<^verbatim>\<open>ContainsNegativeStride\<close> of \<^verbatim>\<open>tensor-pattern-utils.h\<close> tests
  \<^verbatim>\<open>(pattern_code | kPatternContainsNegativeStride) != 0\<close> with the constant 2048.
\<close>

definition kPatternContainsNegativeStride :: int where
  "kPatternContainsNegativeStride = 2048"

definition ContainsNegativeStride :: "int \<Rightarrow> bool" where
  "ContainsNegativeStride pattern_code \<longleftrightarrow>
     (pattern_code OR kPatternContainsNegativeStride) \<noteq> 0"

text \<open>
  \<^verbatim>\<open>ComputePatternCode\<close>: one round of the loop over \<^verbatim>\<open>raxis\<close>, on the locals
  \<^verbatim>\<open>(ans, n, found_negative_dim)\<close>, then the body of the function.
  \<open>ComputePatternCode_ans\<close> is the value that the body has built in \<^verbatim>\<open>ans\<close> when
  control reaches its closing brace.  The function is declared \<^verbatim>\<open>int32\<close> and has no
  \<^verbatim>\<open>return\<close> statement: flowing off its end is undefined behaviour, and that is the
  answer of \<open>ComputePatternCode\<close>.  With \<^verbatim>\<open>return ans;\<close> added the function would
  return \<open>ComputePatternCode_ans\<close>.
\<close>

definition ComputePatternCode_step ::
  "Pattern \<Rightarrow> nat \<Rightarrow> int \<times> int \<times> bool \<Rightarrow> int \<times> int \<times> bool" where
  "ComputePatternCode_step pattern raxis s =
     (case s of (ans, n, found_negative_dim) \<Rightarrow>
        let dim = dims pattern ! raxis;
            stride = strides pattern ! raxis;
            ans1 = (if dim \<noteq> 1 then ans OR 1 else ans);
            found1 = (if dim \<noteq> 1 \<and> dim < 0 then True else found_negative_dim);
            n1 = (if dim \<noteq> 1 \<and> stride = 1 then int raxis + 1 else n)
        in (push_bit 1 ans1, n1, found1))"

definition ComputePatternCode_ans :: "Pattern \<Rightarrow> int" where
  "ComputePatternCode_ans pattern =
     (case fold (ComputePatternCode_step pattern) [0..<num_axes pattern] (0, 0, False) of
        (ans, n, found_negative_dim) \<Rightarrow>
          ans OR (push_bit 8 n OR (if found_negative_dim then push_bit 11 1 else 0)))"

definition ComputePatternCode :: "Pattern \<Rightarrow> error + int" where
  "ComputePatternCode pattern =
     (let ans = ComputePatternCode_ans pattern in Inl UndefinedBehaviour)"

subsection \<open>Minimum and maximum memory index\<close>

text \<open>
  \<^verbatim>\<open>ComputeMinAndMaxMindex\<close> returns the pair \<^verbatim>\<open>(*min_mindex, *max_mindex)\<close>.  The
  parameter is declared as a pointer and used as a reference; it is read as a reference,
  and \<^verbatim>\<open>int64 prod (...) * ...\<close> as the initialisation \<^verbatim>\<open>int64 prod = (...) * ...\<close>.
  The products are taken in \<^verbatim>\<open>int64\<close>.
\<close>

definition ComputeMinAndMaxMindex :: "Pattern \<Rightarrow> int \<times> int" where
  "ComputeMinAndMaxMindex pattern =
     (if ContainsNegativeStride (code pattern) then
        fold (\<lambda>raxis (min_mindex_sum, max_mindex_sum).
                let prod = (dims pattern ! raxis - 1) * (strides pattern ! raxis)
                in if strides pattern ! raxis > 0
                   then (min_mindex_sum, max_mindex_sum + prod)
                   else (min_mindex_sum + prod, max_mindex_sum))
             [0..<num_axes pattern] (0, 0)
      else
        (0, fold (\<lambda>raxis max_mindex_sum.
                    max_mindex_sum + (dims pattern ! raxis - 1) * (strides pattern ! raxis))
                 [0..<num_axes pattern] 0))"

text \<open>
  The first stage of \<^verbatim>\<open>PatternsIntersect\<close>: the function returns \<^verbatim>\<open>false\<close> at once when
  the two ranges it has computed do not meet.
\<close>

definition PatternsIntersect_ranges_disjoint :: "Pattern \<Rightarrow> Pattern \<Rightarrow> bool" where
  "PatternsIntersect_ranges_disjoint pattern1 pattern2 =
     (case ComputeMinAndMaxMindex pattern1 of (min_mindex1, max_mindex1) \<Rightarrow>
      case ComputeMinAndMaxMindex pattern2 of (min_mindex2, max_mindex2) \<Rightarrow>
        min_mindex2 > max_mindex1 \<or> min_mindex1 > max_mindex2)"

subsection \<open>Compression\<close>













subsection \<open>Unsqueeze, Squeeze, Transpose and Slice\<close>

text \<open>
  \<^verbatim>\<open>UnsqueezeR(raxis, src, dest)\<close>.  The flag \<open>same\<close> says that \<^verbatim>\<open>&src == dest\<close>; the
  header declares the in-place form \<^verbatim>\<open>UnsqueezeR(raxis, p)\<close>, which is this function with
  \<open>same\<close>.  The shifting loop starts at \<^verbatim>\<open>r = num_axes_in + 1\<close>, so its first round writes
  slot \<^verbatim>\<open>num_axes_in + 1\<close>, which lies outside the arrays when \<^verbatim>\<open>num_axes_in\<close> is
  \<^verbatim>\<open>KALDI_TENSOR_MAX_DIM - 1\<close>.  The field \<^verbatim>\<open>properties\<close> is not part of the model.
\<close>

definition UnsqueezeR :: "int \<Rightarrow> Pattern \<Rightarrow> Pattern \<Rightarrow> bool \<Rightarrow> error + Pattern" where
  "UnsqueezeR raxis src dest same =
     (let num_axes_in = num_axes src in
      if raxis < 0 \<or> raxis > int num_axes_in \<or> KALDI_TENSOR_MAX_AXES \<le> num_axes_in
      then Inl AssertionFailed
      else if KALDI_TENSOR_MAX_AXES \<le> num_axes_in + 1 then Inl UndefinedBehaviour
      else
        let dest1 =
              (if same then dest
               else fold (\<lambda>r d. d\<lparr>dims := (dims d)[r := 1], strides := (strides d)[r := 0]\<rparr>)
                         [num_axes_in + 1..<KALDI_TENSOR_MAX_AXES]
                         (fold (\<lambda>r d. d\<lparr>dims := (dims d)[r := dims src ! r],
                                         strides := (strides d)[r := strides src ! r]\<rparr>)
                               [0..<nat raxis] dest));
            dest2 = dest1\<lparr>num_axes := num_axes_in + 1\<rparr>;
            dest3 = fold (\<lambda>r d. let s = (if same then d else src)
                                 in d\<lparr>dims := (dims d)[r := dims s ! (r - 1)],
                                      strides := (strides d)[r := strides s ! (r - 1)]\<rparr>)
                         (rev [nat raxis + 1..<num_axes_in + 2]) dest2;
            dest4 = dest3\<lparr>dims := (dims dest3)[nat raxis := 1],
                          strides := (strides dest3)[nat raxis := 0]\<rparr>
        in Inr (if raxis \<noteq> int num_axes_in then dest4\<lparr>code := - 1\<rparr>
                else if \<not> same then dest4\<lparr>code := code src\<rparr>
                else dest4))"

text \<open>The wrapper \<^verbatim>\<open>Unsqueeze(axis, p)\<close> of the header, in place.\<close>

definition Unsqueeze :: "int \<Rightarrow> Pattern \<Rightarrow> error + Pattern" where
  "Unsqueeze axis p =
     (if axis < 0 then UnsqueezeR (1 - axis) p p True
      else UnsqueezeR (int (num_axes p) - axis) p p True)"

text \<open>
  Modelled from the spec: \<^verbatim>\<open>SqueezeR\<close> is declared in the header and defined nowhere in
  the sources.  Its documentation requires \<^verbatim>\<open>0 <= raxis < p->num_axes\<close> and
  \<^verbatim>\<open>p->dims[raxis] == 1\<close> and calls anything else an error; the axis is removed, the
  higher axes move down, and the code is set to -1 unless the axis removed was the
  highest-numbered one.
\<close>

definition SqueezeR :: "int \<Rightarrow> Pattern \<Rightarrow> error + Pattern" where
  "SqueezeR raxis p =
     (if raxis < 0 \<or> int (num_axes p) \<le> raxis then Inl KaldiError
      else if dims p ! nat raxis = 1 then
        Inr (p\<lparr>num_axes := num_axes p - 1,
               dims := take (nat raxis) (dims p) @ drop (nat raxis + 1) (dims p) @ [1],
               strides := take (nat raxis) (strides p) @ drop (nat raxis + 1) (strides p) @ [0],
               code := (if raxis = int (num_axes p) - 1 then code p else - 1)\<rparr>)
      else Inl KaldiError)"

text \<open>The wrapper \<^verbatim>\<open>Squeeze(axis, p)\<close> of the header.\<close>

definition Squeeze :: "int \<Rightarrow> Pattern \<Rightarrow> error + Pattern" where
  "Squeeze axis p =
     (if axis < 0 then SqueezeR (1 - axis) p
      else SqueezeR (int (num_axes p) - 1 - axis) p)"

text \<open>
  The two functions named \<^verbatim>\<open>Transpose\<close>: the first takes private axis indexes (here
  \<open>TransposeR\<close>), the second public ones.  The casts to \<^verbatim>\<open>uint32\<close> reject negative
  indexes.
\<close>

definition TransposeR :: "int \<Rightarrow> int \<Rightarrow> Pattern \<Rightarrow> error + Pattern" where
  "TransposeR raxis1 raxis2 p =
     (if raxis1 < 0 \<or> int (num_axes p) \<le> raxis1 \<or> raxis2 < 0 \<or> int (num_axes p) \<le> raxis2
      then Inl KaldiError
      else Inr (p\<lparr>strides := (strides p)[nat raxis1 := strides p ! nat raxis2,
                                            nat raxis2 := strides p ! nat raxis1],
                  dims := (dims p)[nat raxis1 := dims p ! nat raxis2,
                                   nat raxis2 := dims p ! nat raxis1],
                  code := - 1\<rparr>))"

definition Transpose :: "int \<Rightarrow> int \<Rightarrow> Pattern \<Rightarrow> error + Pattern" where
  "Transpose axis1 axis2 p =
     (let raxis1 = (if axis1 < 0 then axis1 + 1 else int (num_axes p) - 1 - axis1);
          raxis2 = (if axis2 < 0 then axis2 + 1 else int (num_axes p) - 1 - axis2)
      in TransposeR raxis1 raxis2 p)"

text \<open>
  \<^verbatim>\<open>Slice(axis, start, end, pattern)\<close>.  \<^verbatim>\<open>EaxisToRaxis\<close> is not among the sources and
  is a parameter of the model.  Readings: the argument \<^verbatim>\<open>eaxis\<close> of that call is the
  parameter \<^verbatim>\<open>axis\<close>, and \<^verbatim>\<open>src\<close> in the range check is \<^verbatim>\<open>*pattern\<close>; the check indexes
  \<^verbatim>\<open>dims\<close> with \<^verbatim>\<open>axis\<close>, as written.  The statement \<^verbatim>\<open>pattern->strides[raxis] == 0;\<close>
  compares and changes nothing.  \<^verbatim>\<open>1 << (raxis - 1)\<close> is undefined for \<^verbatim>\<open>raxis = 0\<close>.
\<close>

definition Slice ::
  "(int \<Rightarrow> int) \<Rightarrow> int \<Rightarrow> int \<Rightarrow> int \<Rightarrow> Pattern \<Rightarrow> error + Pattern" where
  "Slice EaxisToRaxis axis start end pattern =
     (let raxis = EaxisToRaxis axis in
      if uint32 (int (num_axes pattern)) \<le> uint32 raxis \<or> end \<le> start then Inl KaldiError
      else if axis < 0 \<or> int KALDI_TENSOR_MAX_AXES \<le> axis then Inl UndefinedBehaviour
      else if uint32 (dims pattern ! nat axis) \<le> uint32 end then Inl KaldiError
      else
        let old_stride = strides pattern ! nat raxis;
            new_dim = end - start;
            pattern1 = pattern\<lparr>offset := offset pattern +
                                           int32 (strides pattern ! nat raxis * start),
                               dims := (dims pattern)[nat raxis := new_dim]\<rparr>
        in if new_dim = 1 \<and> 0 \<le> code pattern1 then
             if raxis - 1 < 0 then Inl UndefinedBehaviour
             else
               let code1 = code pattern1 AND NOT (push_bit (nat (raxis - 1)) 1);
                   code2 = (if old_stride = 1 then code1 AND NOT 1792 else code1)
               in Inr (pattern1\<lparr>code := code2\<rparr>)
           else Inr pattern1)"

subsection \<open>Regularity\<close>

text \<open>
  \<^verbatim>\<open>IsRegular\<close>.  \<open>IsRegular_scan\<close> is the inner loop over \<^verbatim>\<open>j\<close>: it answers
  \<open>True\<close> when the loop ends by \<^verbatim>\<open>break\<close> or by falling off, \<open>False\<close> when the function
  returns \<^verbatim>\<open>false\<close>.  \<^verbatim>\<open>||\<close> evaluates \<^verbatim>\<open>strides[j] % this_stride\<close> only when
  \<^verbatim>\<open>dims[j] == 1\<close>.  \<^verbatim>\<open>this_prod\<close> is the product of two \<^verbatim>\<open>int32\<close>, taken in
  \<^verbatim>\<open>int32\<close>.
\<close>

fun IsRegular_scan :: "Pattern \<Rightarrow> int \<Rightarrow> int \<Rightarrow> nat list \<Rightarrow> error + bool" where
  "IsRegular_scan pattern this_stride this_prod [] = Inr True"
| "IsRegular_scan pattern this_stride this_prod (j # js) =
     (if strides pattern ! j \<ge> this_prod then Inr True
      else if dims pattern ! j \<noteq> 1 then Inr False
      else if div_undefined (strides pattern ! j) this_stride then Inl UndefinedBehaviour
      else if strides pattern ! j smod this_stride \<noteq> 0 then Inr False
      else IsRegular_scan pattern this_stride this_prod js)"

fun IsRegular_loop :: "Pattern \<Rightarrow> nat list \<Rightarrow> error + bool" where
  "IsRegular_loop pattern [] = Inr True"
| "IsRegular_loop pattern (i # is) =
     (case IsRegular_scan pattern (strides pattern ! i)
             (int32 (strides pattern ! i * dims pattern ! i)) [i + 1..<num_axes pattern] of
        Inl e \<Rightarrow> Inl e
      | Inr ok \<Rightarrow> if ok then IsRegular_loop pattern is else Inr False)"

definition IsRegular :: "Pattern \<Rightarrow> error + bool" where
  "IsRegular pattern = IsRegular_loop pattern [0..<num_axes pattern - 1]"

text \<open>
  The regularity property in the words of the specification: for every axis \<open>i\<close>, either
  \<open>dim\<^sub>i = 1\<close> or, with \<open>k\<close> the smallest index above \<open>i\<close> such that
  \<open>stride\<^sub>k \<ge> stride\<^sub>i * dim\<^sub>i\<close> (\<open>num_axes\<close> when there is none), every axis \<open>j\<close> with
  \<open>i < j < k\<close> has \<open>dim\<^sub>j = 1\<close> or \<open>stride\<^sub>j\<close> divisible by \<open>stride\<^sub>i\<close>.
  \<open>first_at_least p bound i\<close> is the smallest index above \<open>i\<close> whose stride is at least
  \<open>bound\<close>, and \<open>Regular_either\<close> is that sentence.

  \<open>Regular_both\<close> differs from it in two places: an axis \<open>i\<close> with \<open>dim\<^sub>i = 1\<close> is not
  exempt, and every axis \<open>j\<close> between \<open>i\<close> and \<open>k\<close> has \<open>dim\<^sub>j = 1\<close> and \<open>stride\<^sub>j\<close>
  divisible by \<open>stride\<^sub>i\<close>.  \<open>trivial_strides_nonnegative\<close> says that no axis with dim 1
  has a negative stride (in a valid pattern those strides are 0), and
  \<open>products_fit_int32\<close> that every product \<open>stride\<^sub>i * dim\<^sub>i\<close> lies in the range of
  \<^verbatim>\<open>int32\<close>.
\<close>

definition first_at_least :: "Pattern \<Rightarrow> int \<Rightarrow> nat \<Rightarrow> nat" where
  "first_at_least p bound i =
     (case find (\<lambda>k. bound \<le> strides p ! k) [i + 1..<num_axes p] of
        None \<Rightarrow> num_axes p
      | Some k \<Rightarrow> k)"

definition Regular_either :: "Pattern \<Rightarrow> bool" where
  "Regular_either p \<longleftrightarrow>
     list_all (\<lambda>i. dims p ! i = 1 \<or>
                   list_all (\<lambda>j. dims p ! j = 1 \<or> strides p ! i dvd strides p ! j)
                            [i + 1..<first_at_least p (strides p ! i * dims p ! i) i])
              [0..<num_axes p]"

definition Regular_both :: "Pattern \<Rightarrow> bool" where
  "Regular_both p \<longleftrightarrow>
     list_all (\<lambda>i. list_all (\<lambda>j. dims p ! j = 1 \<and> strides p ! i dvd strides p ! j)
                            [i + 1..<first_at_least p (strides p ! i * dims p ! i) i])
              [0..<num_axes p]"

definition trivial_strides_nonnegative :: "Pattern \<Rightarrow> bool" where
  "trivial_strides_nonnegative p \<longleftrightarrow>
     list_all (\<lambda>j. dims p ! j < 1 \<or> 1 < dims p ! j \<or> 0 \<le> strides p ! j) [0..<num_axes p]"

definition products_fit_int32 :: "Pattern \<Rightarrow> bool" where
  "products_fit_int32 p \<longleftrightarrow>
     list_all (\<lambda>i. - 2147483648 \<le> strides p ! i * dims p ! i \<and>
                   strides p ! i * dims p ! i < 2147483648) [0..<num_axes p]"

text \<open>
  Modelled from the spec: \<^verbatim>\<open>IsCanonical\<close> and \<^verbatim>\<open>HasNormalizedPositiveStrides\<close> are not
  among the sources.  The data model of the specification: a canonical pattern is valid,
  its axes are sorted by non-decreasing stride magnitude, ties broken by dimension, and
  the lowest-indexed axis with dim greater than 1 has the smallest stride of those axes; a
  normalized pattern is canonical and every stride of an axis with dim greater than 1 is
  strictly positive.
\<close>

definition IsCanonical :: "Pattern \<Rightarrow> bool" where
  "IsCanonical p \<longleftrightarrow>
     IsValid p \<and>
     list_all (\<lambda>r. \<bar>strides p ! r\<bar> < \<bar>strides p ! (r + 1)\<bar> \<or>
                   (\<bar>strides p ! r\<bar> = \<bar>strides p ! (r + 1)\<bar> \<and> dims p ! r \<le> dims p ! (r + 1)))
              [0..<num_axes p - 1] \<and>
     (case find (\<lambda>r. 1 < dims p ! r) [0..<num_axes p] of
        None \<Rightarrow> True
      | Some f \<Rightarrow> list_all (\<lambda>r. dims p ! r = 1 \<or> strides p ! f \<le> strides p ! r)
                           [0..<num_axes p])"

definition HasNormalizedPositiveStrides :: "Pattern \<Rightarrow> bool" where
  "HasNormalizedPositiveStrides p \<longleftrightarrow>
     IsCanonical p \<and> list_all (\<lambda>r. dims p ! r = 1 \<or> 0 < strides p ! r) [0..<num_axes p]"

subsection \<open>Canonical form and common strides\<close>

text \<open>
  Modelled from the spec: \<^verbatim>\<open>CanonicalizePattern\<close> is not among the sources.  The
  specification: it sorts the axes by stride, ties by dim, deterministically, and does
  not change the offset.  The model sorts the used axes by stride magnitude, then dim,
  with a stable insertion sort, and marks the code stale.  The patterns of the results
  below are already in that order.
\<close>

fun axis_le :: "int \<times> int \<Rightarrow> int \<times> int \<Rightarrow> bool" where
  "axis_le (dim1, stride1) (dim2, stride2) \<longleftrightarrow>
     \<bar>stride1\<bar> < \<bar>stride2\<bar> \<or> (\<bar>stride1\<bar> = \<bar>stride2\<bar> \<and> dim1 \<le> dim2)"

fun insert_axis :: "int \<times> int \<Rightarrow> (int \<times> int) list \<Rightarrow> (int \<times> int) list" where
  "insert_axis x [] = [x]"
| "insert_axis x (y # ys) = (if axis_le x y then x # y # ys else y # insert_axis x ys)"

fun sort_axes :: "(int \<times> int) list \<Rightarrow> (int \<times> int) list" where
  "sort_axes [] = []"
| "sort_axes (x # xs) = insert_axis x (sort_axes xs)"

definition CanonicalizePattern :: "Pattern \<Rightarrow> Pattern" where
  "CanonicalizePattern p =
     (let axes = sort_axes (axes_of p)
      in p\<lparr>dims := map fst axes @ drop (num_axes p) (dims p),
            strides := map snd axes @ drop (num_axes p) (strides p),
            code := - 1\<rparr>)"

text \<open>
  \<^verbatim>\<open>FindAllStrides\<close>; \<^verbatim>\<open>SortAndUniq\<close> sorts from least to greatest and removes
  duplicates.  The names \<^verbatim>\<open>pattern1_\<close> and \<^verbatim>\<open>pattern2_\<close> are read as the parameters.
\<close>

definition FindAllStrides :: "Pattern \<Rightarrow> Pattern \<Rightarrow> int list" where
  "FindAllStrides pattern1 pattern2 =
     sort (remdups (take (num_axes pattern1) (strides pattern1) @
                    take (num_axes pattern2) (strides pattern2)))"

text \<open>
  \<^verbatim>\<open>std::vector::resize\<close> appends value-initialised elements.  \<^verbatim>\<open>struct Pattern\<close> is
  not among the sources, so the content of a value-initialised \<^verbatim>\<open>Pattern\<close> is a
  parameter \<open>fresh\<close> of the functions that grow a vector of patterns.  \<open>fresh0\<close> is the
  all-zero value that value-initialisation gives to a struct without a default
  constructor of its own.
\<close>

definition fresh0 :: Pattern where
  "fresh0 = \<lparr>num_axes = 0, dims = [0, 0, 0, 0, 0], strides = [0, 0, 0, 0, 0], offset = 0, code = 0\<rparr>"

text \<open>
  \<^verbatim>\<open>ConvertPatternStridesLazily\<close>, with \<open>\<dots>_step\<close> one round of its loop on
  \<^verbatim>\<open>(raxis_in, *pattern_out)\<close>.  It fills the element it is given: \<^verbatim>\<open>num_axes\<close>,
  \<^verbatim>\<open>code\<close>, \<^verbatim>\<open>offset\<close> and the first \<^verbatim>\<open>strides.size()\<close> slots; the other slots keep what
  \<open>fresh\<close> holds.  Readings: \<^verbatim>\<open>pattern_in++\<close>, on a const reference, is \<^verbatim>\<open>raxis_in++\<close>,
  and \<^verbatim>\<open>pattern_in->offset\<close> is \<^verbatim>\<open>pattern_in.offset\<close>.  More than
  \<^verbatim>\<open>KALDI_TENSOR_MAX_AXES\<close> strides would be written outside the arrays.
\<close>

definition ConvertPatternStridesLazily_step ::
  "Pattern \<Rightarrow> int list \<Rightarrow> nat \<Rightarrow> nat \<times> Pattern \<Rightarrow> nat \<times> Pattern" where
  "ConvertPatternStridesLazily_step pattern_in strides_wanted raxis_out s =
     (case s of (raxis_in, out) \<Rightarrow>
        let stride = strides_wanted ! raxis_out;
            out1 = out\<lparr>strides := (strides out)[raxis_out := stride]\<rparr>
        in if strides pattern_in ! raxis_in = stride
           then (raxis_in + 1,
                 out1\<lparr>dims := (dims out1)[raxis_out := dims pattern_in ! raxis_in]\<rparr>)
           else (raxis_in, out1\<lparr>dims := (dims out1)[raxis_out := 1]\<rparr>))"

definition ConvertPatternStridesLazily :: "Pattern \<Rightarrow> Pattern \<Rightarrow> int list \<Rightarrow> error + Pattern" where
  "ConvertPatternStridesLazily fresh pattern_in strides_wanted =
     (let num_axes_in = num_axes pattern_in;
          num_axes_out = length strides_wanted
      in if KALDI_TENSOR_MAX_AXES < num_axes_out then Inl UndefinedBehaviour
         else
           case fold (ConvertPatternStridesLazily_step pattern_in strides_wanted)
                     [0..<num_axes_out]
                     (0, fresh\<lparr>num_axes := num_axes_out, code := - 1,
                               offset := offset pattern_in\<rparr>) of
             (raxis_in, out) \<Rightarrow>
               if raxis_in \<noteq> num_axes_in then Inl KaldiError else Inr out)"

text \<open>
  \<^verbatim>\<open>EnsureAxisSortingPropertyHolds\<close>.  \<open>\<dots>_scan\<close> is the first loop; it answers
  \<open>Some k\<close> when the loop ends and \<open>None\<close> when the function returns \<^verbatim>\<open>false\<close>.  The test
  in it reads \<^verbatim>\<open>dims[k]\<close> and \<^verbatim>\<open>strides[k]\<close>, and \<^verbatim>\<open>k\<close> still is \<^verbatim>\<open>num_axes\<close> there:
  a slot that \<^verbatim>\<open>ConvertPatternStridesLazily\<close> has not written, or one outside the arrays.
  \<open>\<dots>_split\<close> is one round of the second loop, whose header
  \<^verbatim>\<open>for (; j = k - 1; j > i; j--)\<close> is read as \<^verbatim>\<open>for (j = k - 1; j > i; j--)\<close>; its state is
  the vector and the index of the element that \<^verbatim>\<open>pattern\<close> points to, which the code
  re-aims at element \<^verbatim>\<open>i\<close> after a \<^verbatim>\<open>resize\<close>.  The two initialisations of \<^verbatim>\<open>pattern\<close>
  from \<^verbatim>\<open>(*patterns)[...]\<close> are read as taking the address.
\<close>

fun EnsureAxisSortingPropertyHolds_scan ::
  "Pattern \<Rightarrow> int \<Rightarrow> int \<Rightarrow> nat \<Rightarrow> nat list \<Rightarrow> error + nat option" where
  "EnsureAxisSortingPropertyHolds_scan pattern this_stride this_prod k [] = Inr (Some k)"
| "EnsureAxisSortingPropertyHolds_scan pattern this_stride this_prod k (j # js) =
     (if strides pattern ! j \<ge> this_prod then Inr (Some j)
      else if KALDI_TENSOR_MAX_AXES \<le> k then Inl UndefinedBehaviour
      else if dims pattern ! k \<noteq> 1 then Inr None
      else if div_undefined (strides pattern ! k) this_stride then Inl UndefinedBehaviour
      else if strides pattern ! k smod this_stride \<noteq> 0 then Inr None
      else EnsureAxisSortingPropertyHolds_scan pattern this_stride this_prod k js)"

definition EnsureAxisSortingPropertyHolds_split ::
  "Pattern \<Rightarrow> nat \<Rightarrow> int \<Rightarrow> int \<Rightarrow> nat \<Rightarrow> error + (Pattern list \<times> nat) \<Rightarrow>
   error + (Pattern list \<times> nat)" where
  "EnsureAxisSortingPropertyHolds_split fresh i this_stride this_dim j st =
     (case st of
        Inl e \<Rightarrow> Inl e
      | Inr (patterns, pidx) \<Rightarrow>
          if length patterns \<le> pidx then Inl UndefinedBehaviour
          else
            let pattern = patterns ! pidx;
                j_stride = strides pattern ! j;
                stride_ratio = j_stride sdiv this_stride
            in if div_undefined j_stride this_stride \<or> div_undefined this_dim stride_ratio
               then Inl UndefinedBehaviour
               else
                 let j_dim = this_dim sdiv stride_ratio;
                     remainder = this_dim smod stride_ratio
                 in if remainder \<noteq> 0 then
                      let patterns1 = patterns @ [fresh]
                      in if length patterns1 \<le> i then Inl UndefinedBehaviour
                         else
                           let pattern1 = patterns1 ! i;
                               remainder_pattern =
                                 pattern1\<lparr>dims := (dims pattern1)[i := remainder],
                                          offset := offset pattern1 + j_stride * j_dim\<rparr>;
                               patterns2 = patterns1[length patterns := remainder_pattern];
                               pattern2 = patterns2 ! i
                           in Inr (patterns2[i := pattern2
                                     \<lparr>dims := (dims pattern2)[j := j_dim, i := stride_ratio]\<rparr>],
                                   i)
                    else
                      Inr (patterns[pidx := pattern
                             \<lparr>dims := (dims pattern)[j := j_dim, i := stride_ratio]\<rparr>],
                           pidx))"

definition EnsureAxisSortingPropertyHolds ::
  "Pattern \<Rightarrow> nat \<Rightarrow> nat \<Rightarrow> Pattern list \<Rightarrow> error + (bool \<times> Pattern list)" where
  "EnsureAxisSortingPropertyHolds fresh raxis pattern_index patterns =
     (if length patterns \<le> pattern_index then Inl UndefinedBehaviour
      else
        let pattern = patterns ! pattern_index;
            i = raxis;
            this_stride = strides pattern ! i;
            this_dim = dims pattern ! i;
            this_prod = int32 (this_stride * this_dim)
        in if this_dim = 1 then Inr (True, patterns)
           else
             case EnsureAxisSortingPropertyHolds_scan pattern this_stride this_prod
                    (num_axes pattern) [i + 1..<num_axes pattern] of
               Inl e \<Rightarrow> Inl e
             | Inr None \<Rightarrow> Inr (False, patterns)
             | Inr (Some k) \<Rightarrow>
                 (case fold (EnsureAxisSortingPropertyHolds_split fresh i this_stride this_dim)
                            (rev [i + 1..<k]) (Inr (patterns, pattern_index)) of
                    Inl e \<Rightarrow> Inl e
                  | Inr (patterns1, pidx) \<Rightarrow> Inr (True, patterns1)))"

text \<open>
  \<^verbatim>\<open>ConvertPatternStrides\<close>: \<open>None\<close> is the return value \<^verbatim>\<open>false\<close>, \<open>Some patterns\<close> is
  \<^verbatim>\<open>true\<close> with the vector.  The loop over \<^verbatim>\<open>p\<close> runs to the current size of the vector,
  which the calls may grow; \<open>\<dots>_inner\<close> gives it \<open>fuel\<close> rounds.  The call of
  \<^verbatim>\<open>ConvertPatternStridesLazily\<close> lacks the argument \<^verbatim>\<open>strides\<close> and is read with it.
\<close>

primrec ConvertPatternStrides_inner ::
  "Pattern \<Rightarrow> nat \<Rightarrow> nat \<Rightarrow> nat \<Rightarrow> Pattern list \<Rightarrow> error + Pattern list option" where
  "ConvertPatternStrides_inner fresh 0 raxis p patterns =
     (if p < length patterns then Inl OutOfFuel else Inr (Some patterns))"
| "ConvertPatternStrides_inner fresh (Suc fuel) raxis p patterns =
     (if p < length patterns then
        case EnsureAxisSortingPropertyHolds fresh raxis p patterns of
          Inl e \<Rightarrow> Inl e
        | Inr (ok, patterns1) \<Rightarrow>
            if ok then ConvertPatternStrides_inner fresh fuel raxis (p + 1) patterns1
            else Inr None
      else Inr (Some patterns))"

definition ConvertPatternStrides ::
  "Pattern \<Rightarrow> nat \<Rightarrow> Pattern \<Rightarrow> int list \<Rightarrow> error + Pattern list option" where
  "ConvertPatternStrides fresh fuel pattern strides_wanted =
     (case ConvertPatternStridesLazily fresh pattern strides_wanted of
        Inl e \<Rightarrow> Inl e
      | Inr first \<Rightarrow>
          fold (\<lambda>raxis st.
                  case st of
                    Inr (Some patterns) \<Rightarrow> ConvertPatternStrides_inner fresh fuel raxis 0 patterns
                  | _ \<Rightarrow> st)
               [0..<length strides_wanted - 1] (Inr (Some [first])))"

subsection \<open>Offsets and intersection\<close>

text \<open>
  \<^verbatim>\<open>FindOffsetsRecursive\<close>, by recursion on \<^verbatim>\<open>raxis\<close>, which the code computes as
  \<^verbatim>\<open>num_axes - 1 - known_offsets->size()\<close>.  At \<^verbatim>\<open>raxis == 0\<close> the code resizes
  \<^verbatim>\<open>offsets_out\<close> by 0 and appends to \<^verbatim>\<open>offsets_out->back()\<close>, which is undefined on an
  empty vector and extends the last offset vector otherwise.

  \<^verbatim>\<open>FindOffsets\<close> passes \<^verbatim>\<open>keep_all_offsets\<close> where \<^verbatim>\<open>remainder\<close> is declared and
  \<^verbatim>\<open>pattern2.offset - pattern1.offset\<close> where \<^verbatim>\<open>keep_all_offsets\<close> is; the conversions
  between \<^verbatim>\<open>bool\<close> and \<^verbatim>\<open>int64\<close> make the call well-formed, so the remainder is 0 or 1
  and the flag says that the offsets differ.  \<^verbatim>\<open>this_offset\<close> and \<^verbatim>\<open>next_remainder\<close>
  are \<^verbatim>\<open>int32\<close> variables that receive 64-bit values.
\<close>

primrec FindOffsetsRecursive ::
  "Pattern \<Rightarrow> Pattern \<Rightarrow> nat \<Rightarrow> int list \<Rightarrow> int \<Rightarrow> bool \<Rightarrow> int list list \<Rightarrow>
   error + int list list" where
  "FindOffsetsRecursive pattern1 pattern2 0 known_offsets remainder keep_all_offsets offsets_out =
     (let stride = strides pattern1 ! 0
      in if stride = 0 then Inl UndefinedBehaviour
         else
           let this_offset = int32 (remainder sdiv stride);
               next_remainder = int32 (remainder - int32 (stride * this_offset))
           in if next_remainder = 0 then
                (if offsets_out = [] then Inl UndefinedBehaviour
                 else Inr (butlast offsets_out @
                           [last offsets_out @ [this_offset] @ rev known_offsets]))
              else Inr offsets_out)"
| "FindOffsetsRecursive pattern1 pattern2 (Suc r) known_offsets remainder keep_all_offsets
     offsets_out =
     (let raxis = Suc r;
          stride = strides pattern1 ! raxis
      in if stride = 0 then Inl UndefinedBehaviour
         else
           let this_offset = int32 (remainder sdiv stride);
               next_remainder = int32 (remainder - int32 (stride * this_offset))
           in case (if this_offset > - (dims pattern2 ! raxis) \<and>
                       this_offset < dims pattern1 ! raxis
                    then FindOffsetsRecursive pattern1 pattern2 r
                           (known_offsets @ [this_offset]) next_remainder keep_all_offsets
                           offsets_out
                    else Inr offsets_out) of
                Inl e \<Rightarrow> Inl e
              | Inr offsets1 \<Rightarrow>
                  if next_remainder = 0 \<or> (\<not> keep_all_offsets \<and> offsets1 \<noteq> [])
                  then Inr offsets1
                  else
                    let offset_change = (if next_remainder > 0 then - 1 else 1);
                        this_offset2 = this_offset + offset_change;
                        next_remainder2 = next_remainder - int32 (stride * offset_change)
                    in if this_offset2 > - (dims pattern2 ! raxis) \<and>
                          this_offset2 < dims pattern1 ! raxis
                       then FindOffsetsRecursive pattern1 pattern2 r
                              (known_offsets @ [this_offset2]) next_remainder2
                              keep_all_offsets offsets1
                       else Inr offsets1)"

definition FindOffsets :: "Pattern \<Rightarrow> Pattern \<Rightarrow> bool \<Rightarrow> error + int list list" where
  "FindOffsets pattern1 pattern2 keep_all_offsets =
     (if num_axes pattern1 = 0 then Inl UndefinedBehaviour
      else FindOffsetsRecursive pattern1 pattern2 (num_axes pattern1 - 1) []
             (if keep_all_offsets then 1 else 0)
             (offset pattern2 - offset pattern1 \<noteq> 0) [])"

text \<open>
  \<^verbatim>\<open>OffsetToPattern\<close>.  Inside the loop \<^verbatim>\<open>int32 offset = o[r]\<close> hides the outer
  \<^verbatim>\<open>int64 offset\<close>, so \<^verbatim>\<open>offset += int64(offset) * stride\<close> changes the inner one and
  the offset of the result is \<^verbatim>\<open>pattern1.offset\<close>.  Modelled from the spec:
  \<^verbatim>\<open>SetUnusedDimsAndStrides\<close> and \<^verbatim>\<open>SetDefaultCodeAndProperties\<close> are not among the
  sources; unused slots hold dim 1 and stride 0, and the default code is -1.
\<close>

definition OffsetToPattern :: "Pattern \<Rightarrow> Pattern \<Rightarrow> int list \<Rightarrow> error + Pattern" where
  "OffsetToPattern pattern1 pattern2 o_vec =
     (let n = num_axes pattern1
      in if length o_vec < n \<or> KALDI_TENSOR_MAX_AXES < n then Inl UndefinedBehaviour
         else
           Inr \<lparr>num_axes = n,
                dims = map (\<lambda>r. if r < n then
                                   (let stride = strides pattern1 ! r;
                                        offset0 = o_vec ! r
                                    in if offset0 \<ge> 0
                                       then min (dims pattern1 ! r -
                                                 int32 (offset0 + offset0 * stride))
                                                (dims pattern2 ! r)
                                       else min (dims pattern1 ! r)
                                                (dims pattern2 ! r + offset0))
                                 else 1) [0..<KALDI_TENSOR_MAX_AXES],
                strides = map (\<lambda>r. if r < n then strides pattern1 ! r else 0)
                              [0..<KALDI_TENSOR_MAX_AXES],
                offset = offset pattern1,
                code = - 1\<rparr>)"

fun OffsetsToPatterns :: "Pattern \<Rightarrow> Pattern \<Rightarrow> int list list \<Rightarrow> error + Pattern list" where
  "OffsetsToPatterns pattern1 pattern2 [] = Inr []"
| "OffsetsToPatterns pattern1 pattern2 (o_vec # rest) =
     (case OffsetToPattern pattern1 pattern2 o_vec of
        Inl e \<Rightarrow> Inl e
      | Inr p \<Rightarrow> (case OffsetsToPatterns pattern1 pattern2 rest of
                    Inl e \<Rightarrow> Inl e
                  | Inr ps \<Rightarrow> Inr (p # ps)))"

text \<open>
  \<^verbatim>\<open>ComputeIntersection\<close> returns \<^verbatim>\<open>(result, *intersection)\<close>.  \<open>\<dots>_pairs\<close> is the
  double loop over the pieces of the two patterns.  The locals read from
  \<^verbatim>\<open>sub_pattern.mindex\<close> are used only under \<^verbatim>\<open>#if 0\<close>.
\<close>

fun ComputeIntersection_pairs ::
  "Pattern \<Rightarrow> Pattern \<Rightarrow> bool \<Rightarrow> (Pattern \<times> Pattern) list \<Rightarrow> Pattern list \<Rightarrow>
   error + Pattern list" where
  "ComputeIntersection_pairs pattern1 pattern2 keep_all_patterns [] intersection =
     Inr intersection"
| "ComputeIntersection_pairs pattern1 pattern2 keep_all_patterns
     ((sub_pattern1, sub_pattern2) # rest) intersection =
     (case FindOffsets sub_pattern1 sub_pattern2 keep_all_patterns of
        Inl e \<Rightarrow> Inl e
      | Inr offsets \<Rightarrow>
          (case OffsetsToPatterns pattern1 pattern2 offsets of
             Inl e \<Rightarrow> Inl e
           | Inr ps \<Rightarrow>
               if \<not> keep_all_patterns \<and> intersection @ ps \<noteq> []
               then Inr (intersection @ ps)
               else ComputeIntersection_pairs pattern1 pattern2 keep_all_patterns rest
                      (intersection @ ps)))"

definition ComputeIntersection ::
  "Pattern \<Rightarrow> nat \<Rightarrow> Pattern \<Rightarrow> Pattern \<Rightarrow> bool \<Rightarrow> error + (bool \<times> Pattern list)" where
  "ComputeIntersection fresh fuel pattern1_in pattern2_in keep_all_patterns =
     (let pattern1 = CanonicalizePattern pattern1_in;
          pattern2 = CanonicalizePattern pattern2_in;
          strides_all = FindAllStrides pattern1 pattern2
      in if strides_all = [] then
           Inr (True, if offset pattern1 = offset pattern2 then [pattern1] else [])
         else
           case ConvertPatternStrides fresh fuel pattern1 strides_all of
             Inl e \<Rightarrow> Inl e
           | Inr None \<Rightarrow> Inr (False, [])
           | Inr (Some patterns1) \<Rightarrow>
               (case ConvertPatternStrides fresh fuel pattern2 strides_all of
                  Inl e \<Rightarrow> Inl e
                | Inr None \<Rightarrow> Inr (False, [])
                | Inr (Some patterns2) \<Rightarrow>
                    (case ComputeIntersection_pairs pattern1 pattern2 keep_all_patterns
                            (List.product patterns1 patterns2) [] of
                       Inl e \<Rightarrow> Inl e
                     | Inr intersection \<Rightarrow> Inr (True, intersection))))"

text \<open>
  \<^verbatim>\<open>NumElements\<close> and \<^verbatim>\<open>PatternIsSubsetOf\<close>, which ignores the value that
  \<^verbatim>\<open>ComputeIntersection\<close> returns.
\<close>

definition NumElements :: "Pattern \<Rightarrow> int" where
  "NumElements pattern = fold (\<lambda>raxis ans. ans * dims pattern ! raxis) [0..<num_axes pattern] 1"

definition PatternIsSubsetOf :: "Pattern \<Rightarrow> nat \<Rightarrow> Pattern \<Rightarrow> Pattern \<Rightarrow> error + bool" where
  "PatternIsSubsetOf fresh fuel p q =
     (case ComputeIntersection fresh fuel p q True of
        Inl e \<Rightarrow> Inl e
      | Inr (ok, intersection) \<Rightarrow>
          Inr (fold (\<lambda>r total_size. total_size + NumElements r) intersection 0 = NumElements p))"

subsection \<open>Hyperrectangles and difference\<close>

text \<open>
  \<^verbatim>\<open>SubtractHyperrectangles\<close>; \<^verbatim>\<open>difference->append(a)\<close> is read as \<^verbatim>\<open>push_back\<close>.  The
  overlapping part is passed on as the interval from \<^verbatim>\<open>max(a_start, b_start)\<close> to
  \<^verbatim>\<open>min(a_start, b_start)\<close>, as written.
\<close>

type_synonym Hyperrectangle = "(int \<times> int) list"

function SubtractHyperrectangles ::
  "Hyperrectangle \<Rightarrow> Hyperrectangle \<Rightarrow> nat \<Rightarrow> Hyperrectangle list \<Rightarrow>
   error + Hyperrectangle list" where
  "SubtractHyperrectangles a b i difference =
     (if length a \<le> i \<or> length b \<le> i then Inl UndefinedBehaviour
      else
        let a_start = fst (a ! i); a_end = snd (a ! i);
            b_start = fst (b ! i); b_end = snd (b ! i)
        in if b_start < a_end \<and> b_end > a_start then
             let difference1 = (if a_start < b_start
                                then difference @ [a[i := (a_start, b_start)]]
                                else difference);
                 difference2 = (if a_end > b_end
                                then difference1 @ [a[i := (b_end, a_end)]]
                                else difference1)
             in if i + 1 < length a then
                  let intersection_start = max a_start b_start;
                      intersection_end = min a_start b_start
                  in SubtractHyperrectangles (a[i := (intersection_start, intersection_end)])
                       b (i + 1) difference2
                else Inr difference2
           else Inr (difference @ [a]))"
  by pat_completeness auto
termination
  by (relation "measure (\<lambda>(a, b, i, difference). length a - i)") auto
declare SubtractHyperrectangles.simps [simp del]

text \<open>
  The index tuples of a hyperrectangle \<open>h\<close>: the tuples \<open>i\<close> with
  \<open>h[r].first \<le> i[r] < h[r].second\<close> on every axis.
\<close>

fun index_tuples :: "Hyperrectangle \<Rightarrow> int list list" where
  "index_tuples [] = [[]]"
| "index_tuples ((begin, end) # h) =
     concat (map (\<lambda>i. map (\<lambda>t. i # t) (index_tuples h)) [begin..end - 1])"

text \<open>
  \<^verbatim>\<open>HyperrectangleToPattern\<close> and \<^verbatim>\<open>GetFullHyperrectangleOfPattern\<close>.
\<close>

definition HyperrectangleToPattern :: "Pattern \<Rightarrow> Hyperrectangle \<Rightarrow> error + Pattern" where
  "HyperrectangleToPattern src h =
     (let n = num_axes src
      in if length h < n \<or> KALDI_TENSOR_MAX_AXES < n then Inl UndefinedBehaviour
         else
           Inr \<lparr>num_axes = n,
                dims = map (\<lambda>r. if r < n then snd (h ! r) - fst (h ! r) else 1)
                           [0..<KALDI_TENSOR_MAX_AXES],
                strides = map (\<lambda>r. if r < n then strides src ! r else 0)
                              [0..<KALDI_TENSOR_MAX_AXES],
                offset = fold (\<lambda>r off. off + fst (h ! r) * strides src ! r) [0..<n] (offset src),
                code = - 1\<rparr>)"

definition GetFullHyperrectangleOfPattern :: "Pattern \<Rightarrow> Hyperrectangle" where
  "GetFullHyperrectangleOfPattern src = map (\<lambda>raxis. (0, dims src ! raxis)) [0..<num_axes src]"

text \<open>
  \<^verbatim>\<open>OffsetToHyperrectangle\<close>: the loop, with its assertion.  The block after it,
  marked as testing code, draws a random index and asserts on it; it is left out.
\<close>

definition OffsetToHyperrectangle ::
  "Pattern \<Rightarrow> Pattern \<Rightarrow> int list \<Rightarrow> error + Hyperrectangle" where
  "OffsetToHyperrectangle pattern1 pattern2 offset_vec =
     (let n = num_axes pattern1
      in if length offset_vec < n then Inl UndefinedBehaviour
         else fold (\<lambda>raxis st.
                      case st of
                        Inl e \<Rightarrow> Inl e
                      | Inr h \<Rightarrow>
                          let o_r = offset_vec ! raxis;
                              interval_start = max o_r 0;
                              interval_end = min (dims pattern1 ! raxis)
                                                 (o_r + dims pattern2 ! raxis)
                          in if interval_end > interval_start
                             then Inr (h @ [(interval_start, interval_end)])
                             else Inl AssertionFailed)
                   [0..<n] (Inr []))"

text \<open>
  \<^verbatim>\<open>ComputeDifference\<close>.  The parameters are named \<^verbatim>\<open>pattern1\<close> and \<^verbatim>\<open>pattern2\<close> and
  the body copies \<^verbatim>\<open>pattern1_in\<close> and \<^verbatim>\<open>pattern2_in\<close>; \<^verbatim>\<open>*cur_iter\<close> is read as
  \<^verbatim>\<open>rect\<close>, \<^verbatim>\<open>next_difference->\<close> as \<^verbatim>\<open>next_difference.\<close> and
  \<^verbatim>\<open>next_difference.clear;\<close> as a call of \<^verbatim>\<open>clear()\<close>.  \<open>\<dots>_piece\<close> is the body of
  the loop over \<^verbatim>\<open>cur_difference\<close> and answers the patterns that it appends to
  \<^verbatim>\<open>next_difference\<close>.  The two products for \<^verbatim>\<open>end_mindex\<close> are taken in \<^verbatim>\<open>int32\<close>.
\<close>

fun ComputeDifference_subtract ::
  "Hyperrectangle list \<Rightarrow> Hyperrectangle \<Rightarrow> Hyperrectangle list \<Rightarrow>
   error + Hyperrectangle list" where
  "ComputeDifference_subtract [] h next_rects = Inr next_rects"
| "ComputeDifference_subtract (rect # cur_rects) h next_rects =
     (case SubtractHyperrectangles rect h 0 next_rects of
        Inl e \<Rightarrow> Inl e
      | Inr next_rects1 \<Rightarrow> ComputeDifference_subtract cur_rects h next_rects1)"

fun ComputeDifference_offsets ::
  "Pattern \<Rightarrow> Pattern \<Rightarrow> int list list \<Rightarrow> Hyperrectangle list \<Rightarrow>
   error + Hyperrectangle list" where
  "ComputeDifference_offsets sub_pattern1 sub_pattern2 [] cur_rects = Inr cur_rects"
| "ComputeDifference_offsets sub_pattern1 sub_pattern2 (offset_vec # offsets) cur_rects =
     (case OffsetToHyperrectangle sub_pattern1 sub_pattern2 offset_vec of
        Inl e \<Rightarrow> Inl e
      | Inr h \<Rightarrow>
          (case ComputeDifference_subtract cur_rects h [] of
             Inl e \<Rightarrow> Inl e
           | Inr next_rects \<Rightarrow>
               ComputeDifference_offsets sub_pattern1 sub_pattern2 offsets next_rects))"

fun ComputeDifference_patterns ::
  "Pattern \<Rightarrow> Hyperrectangle list \<Rightarrow> error + Pattern list" where
  "ComputeDifference_patterns sub_pattern1 [] = Inr []"
| "ComputeDifference_patterns sub_pattern1 (h # cur_rects) =
     (case HyperrectangleToPattern sub_pattern1 h of
        Inl e \<Rightarrow> Inl e
      | Inr p \<Rightarrow> (case ComputeDifference_patterns sub_pattern1 cur_rects of
                    Inl e \<Rightarrow> Inl e
                  | Inr ps \<Rightarrow> Inr (p # ps)))"

definition ComputeDifference_piece ::
  "nat \<Rightarrow> Pattern \<Rightarrow> Pattern \<Rightarrow> error + Pattern list" where
  "ComputeDifference_piece n sub_pattern2 sub_pattern1 =
     (let begin_mindex2 = offset sub_pattern2;
          end_mindex2 = begin_mindex2 +
                        int32 (strides sub_pattern2 ! (n - 1) * dims sub_pattern2 ! (n - 1));
          begin_mindex1 = offset sub_pattern1;
          end_mindex1 = begin_mindex1 +
                        int32 (strides sub_pattern1 ! (n - 1) * dims sub_pattern1 ! (n - 1))
      in if begin_mindex2 \<ge> end_mindex1 \<or> begin_mindex1 \<ge> end_mindex2
         then Inr [sub_pattern1]
         else
           case FindOffsets sub_pattern1 sub_pattern2 True of
             Inl e \<Rightarrow> Inl e
           | Inr offsets \<Rightarrow>
               (case ComputeDifference_offsets sub_pattern1 sub_pattern2 offsets
                       [GetFullHyperrectangleOfPattern sub_pattern1] of
                  Inl e \<Rightarrow> Inl e
                | Inr cur_rects \<Rightarrow> ComputeDifference_patterns sub_pattern1 cur_rects))"

fun ComputeDifference_inner ::
  "nat \<Rightarrow> Pattern \<Rightarrow> Pattern list \<Rightarrow> Pattern list \<Rightarrow> error + Pattern list" where
  "ComputeDifference_inner n sub_pattern2 [] next_difference = Inr next_difference"
| "ComputeDifference_inner n sub_pattern2 (sub_pattern1 # cur_difference) next_difference =
     (case ComputeDifference_piece n sub_pattern2 sub_pattern1 of
        Inl e \<Rightarrow> Inl e
      | Inr ps \<Rightarrow>
          ComputeDifference_inner n sub_pattern2 cur_difference (next_difference @ ps))"

fun ComputeDifference_outer ::
  "nat \<Rightarrow> Pattern list \<Rightarrow> Pattern list \<Rightarrow> error + Pattern list" where
  "ComputeDifference_outer n [] cur_difference = Inr cur_difference"
| "ComputeDifference_outer n (sub_pattern2 # patterns2) cur_difference =
     (case ComputeDifference_inner n sub_pattern2 cur_difference [] of
        Inl e \<Rightarrow> Inl e
      | Inr next_difference \<Rightarrow> ComputeDifference_outer n patterns2 next_difference)"

definition ComputeDifference ::
  "Pattern \<Rightarrow> nat \<Rightarrow> Pattern \<Rightarrow> Pattern \<Rightarrow> error + (bool \<times> Pattern list)" where
  "ComputeDifference fresh fuel pattern1_in pattern2_in =
     (let pattern1 = CanonicalizePattern pattern1_in;
          pattern2 = CanonicalizePattern pattern2_in;
          strides_all = FindAllStrides pattern1 pattern2
      in if strides_all = [] then
           Inr (True, if offset pattern1 \<noteq> offset pattern2 then [pattern1] else [])
         else
           case ConvertPatternStrides fresh fuel pattern1 strides_all of
             Inl e \<Rightarrow> Inl e
           | Inr None \<Rightarrow> Inr (False, [])
           | Inr (Some patterns1) \<Rightarrow>
               (case ConvertPatternStrides fresh fuel pattern2 strides_all of
                  Inl e \<Rightarrow> Inl e
                | Inr None \<Rightarrow> Inr (False, [])
                | Inr (Some patterns2) \<Rightarrow>
                    (case ComputeDifference_outer (length strides_all) patterns2 patterns1 of
                       Inl e \<Rightarrow> Inl e
                     | Inr difference \<Rightarrow> Inr (True, difference))))"

text \<open>
  Modelled from the spec: \<^verbatim>\<open>Broadcastable\<close> is declared in the header and not defined
  in the sources.  The specification: after padding with dims of 1, each pair of
  corresponding dims is equal or one of them is 1; the unused slots hold that padding.
\<close>

definition Broadcastable :: "Pattern \<Rightarrow> Pattern \<Rightarrow> bool" where
  "Broadcastable a b \<longleftrightarrow> list_all2 (\<lambda>x y. x = y \<or> x = 1 \<or> y = 1) (dims a) (dims b)"

subsection \<open>Membership and the intersection test\<close>

text \<open>
  \<^verbatim>\<open>PatternContains\<close>; the loop names the pattern \<^verbatim>\<open>p\<close>, read as \<^verbatim>\<open>pattern\<close>.
  \<^verbatim>\<open>index\<close> is an \<^verbatim>\<open>int32\<close> that receives the 64-bit quotient, and the product
  subtracted from \<^verbatim>\<open>mindex\<close> is one of two \<^verbatim>\<open>int32\<close>.
\<close>

fun PatternContains_loop :: "Pattern \<Rightarrow> nat list \<Rightarrow> int \<Rightarrow> error + bool" where
  "PatternContains_loop pattern [] mindex = Inr (mindex = 0)"
| "PatternContains_loop pattern (raxis # rest) mindex =
     (if strides pattern ! raxis = 0 then Inl UndefinedBehaviour
      else
        let index = int32 (mindex sdiv strides pattern ! raxis)
        in if uint32 (dims pattern ! raxis) \<le> uint32 index then Inr False
           else PatternContains_loop pattern rest
                  (mindex - int32 (strides pattern ! raxis * index)))"

definition PatternContains :: "Pattern \<Rightarrow> int \<Rightarrow> error + bool" where
  "PatternContains pattern_in mindex =
     (let pattern = (if IsCanonical pattern_in then pattern_in
                     else CanonicalizePattern pattern_in)
      in PatternContains_loop pattern (rev [0..<num_axes pattern]) (mindex - offset pattern))"

text \<open>
  \<^verbatim>\<open>RandomMemoryIndex\<close>.  \<^verbatim>\<open>RandInt\<close> is outside the sources; the numbers it returns
  are an input of the model, one per axis.
\<close>

definition RandomMemoryIndex :: "(nat \<Rightarrow> int) \<Rightarrow> Pattern \<Rightarrow> int" where
  "RandomMemoryIndex RandInt pattern =
     fold (\<lambda>raxis mindex. mindex + int32 (RandInt raxis * strides pattern ! raxis))
          [0..<num_axes pattern] (offset pattern)"

text \<open>
  \<^verbatim>\<open>ToMemoryIndexSet\<close>.  The lambda \<^verbatim>\<open>recursively_set_elements\<close> captures only
  \<^verbatim>\<open>pattern\<close>, and the function ends without the \<^verbatim>\<open>return\<close> its type asks for; it is
  read as a local recursive function on \<^verbatim>\<open>*s\<close> and as returning once the array is
  filled.  The array has \<^verbatim>\<open>strides[num_axes - 1] * dims[num_axes - 1]\<close> elements and is
  written at memory indexes that include the offset.
\<close>

definition set_base_elements :: "int \<Rightarrow> int \<Rightarrow> int \<Rightarrow> bool list \<Rightarrow> error + bool list" where
  "set_base_elements this_stride this_dim mindex s =
     (if mindex < 0 \<or> int (length s) \<le> mindex then Inl UndefinedBehaviour
      else fold (\<lambda>d st. case st of
                           Inl e \<Rightarrow> Inl e
                         | Inr s1 \<Rightarrow>
                             if mindex + d * this_stride < 0 \<or>
                                int (length s1) \<le> mindex + d * this_stride
                             then Inl UndefinedBehaviour
                             else Inr (s1[nat (mindex + d * this_stride) := True]))
                [0..this_dim - 1] (Inr s))"

primrec recursively_set_elements ::
  "Pattern \<Rightarrow> nat \<Rightarrow> int \<Rightarrow> bool list \<Rightarrow> error + bool list" where
  "recursively_set_elements pattern 0 mindex s =
     set_base_elements (strides pattern ! 0) (dims pattern ! 0) mindex s"
| "recursively_set_elements pattern (Suc r) mindex s =
     fold (\<lambda>d st. case st of
                     Inl e \<Rightarrow> Inl e
                   | Inr s1 \<Rightarrow> recursively_set_elements pattern r
                                 (mindex + int32 (d * strides pattern ! Suc r)) s1)
          [0..dims pattern ! Suc r - 1] (Inr s)"

definition ToMemoryIndexSet :: "Pattern \<Rightarrow> error + bool list" where
  "ToMemoryIndexSet pattern_in =
     (let pattern = (if IsCanonical pattern_in then pattern_in
                     else CanonicalizePattern pattern_in);
          n = (if num_axes pattern = 0 then 1 else num_axes pattern);
          end_mindex = int32 (strides pattern ! (n - 1) * dims pattern ! (n - 1))
      in if end_mindex < 0 then Inl UndefinedBehaviour
         else recursively_set_elements pattern (n - 1) (offset pattern)
                (replicate (nat end_mindex) False))"

text \<open>
  \<^verbatim>\<open>PatternsIntersectSlow\<close>; \<^verbatim>\<open>Canonicalize\<close> is read as \<^verbatim>\<open>CanonicalizePattern\<close>.  The
  loop runs while \<^verbatim>\<open>iter1 != pattern1_mindexes.begin()\<close>, as written; dereferencing an
  iterator at or past the end is undefined.
\<close>

function PatternsIntersectSlow_loop :: "bool list \<Rightarrow> bool list \<Rightarrow> nat \<Rightarrow> error + bool" where
  "PatternsIntersectSlow_loop s1 s2 i =
     (if i = 0 \<or> i = length s2 then Inr False
      else if length s2 < i \<or> length s1 \<le> i then Inl UndefinedBehaviour
      else if s1 ! i \<and> s2 ! i then Inr True
      else PatternsIntersectSlow_loop s1 s2 (i + 1))"
  by pat_completeness auto
termination
  by (relation "measure (\<lambda>(s1, s2, i). length s2 - i)") auto
declare PatternsIntersectSlow_loop.simps [simp del]

definition PatternsIntersectSlow :: "Pattern \<Rightarrow> Pattern \<Rightarrow> error + bool" where
  "PatternsIntersectSlow pattern1_in pattern2_in =
     (let pattern1 = CanonicalizePattern pattern1_in;
          pattern2 = CanonicalizePattern pattern2_in;
          min_offset = min (offset pattern1) (offset pattern2);
          pattern1a = pattern1\<lparr>offset := offset pattern1 - min_offset\<rparr>;
          pattern2a = pattern2\<lparr>offset := offset pattern2 - min_offset\<rparr>;
          max_offset = max (offset pattern1a) (offset pattern2a)
      in case ToMemoryIndexSet pattern1a of
           Inl e \<Rightarrow> Inl e
         | Inr pattern1_mindexes \<Rightarrow>
             (case ToMemoryIndexSet pattern2a of
                Inl e \<Rightarrow> Inl e
              | Inr pattern2_mindexes \<Rightarrow>
                  PatternsIntersectSlow_loop pattern1_mindexes pattern2_mindexes
                    (nat max_offset)))"

text \<open>
  \<^verbatim>\<open>PatternsIntersect\<close>.  \<open>\<dots>_draws\<close> is one of the two loops over the draws: \<open>Some b\<close>
  says that the function returns \<open>b\<close> there, \<open>None\<close> that the loop ends.
  \<open>\<dots>_sampling\<close> is the sampling stage and \<open>\<dots>_fallback\<close> the code from the sampling
  stage to the end.  The call of \<^verbatim>\<open>ComputeIntersection\<close> has its last two arguments
  exchanged, which is not well-formed, and is read in the declared order.  The counter
  \<^verbatim>\<open>num_warned\<close> only limits a log message and is left out.
\<close>

fun PatternsIntersect_draws :: "(int \<Rightarrow> error + bool) \<Rightarrow> int list \<Rightarrow> error + bool option" where
  "PatternsIntersect_draws contains [] = Inr None"
| "PatternsIntersect_draws contains (mindex # rest) =
     (case contains mindex of
        Inl e \<Rightarrow> Inl e
      | Inr found \<Rightarrow> if found then Inr (Some True) else PatternsIntersect_draws contains rest)"

definition num_draws :: nat where
  "num_draws = 10"

definition PatternsIntersect_sampling ::
  "(nat \<Rightarrow> nat \<Rightarrow> int) \<Rightarrow> Pattern \<Rightarrow> Pattern \<Rightarrow> error + bool option" where
  "PatternsIntersect_sampling RandInt pattern1 pattern2 =
     (if NumElements pattern1 < NumElements pattern2
      then PatternsIntersect_draws (PatternContains pattern2)
             (map (\<lambda>i. RandomMemoryIndex (RandInt i) pattern1) [0..<num_draws])
      else PatternsIntersect_draws (PatternContains pattern1)
             (map (\<lambda>i. RandomMemoryIndex (RandInt i) pattern2) [0..<num_draws]))"

definition PatternsIntersect_fallback ::
  "(nat \<Rightarrow> nat \<Rightarrow> int) \<Rightarrow> Pattern \<Rightarrow> Pattern \<Rightarrow> error + bool" where
  "PatternsIntersect_fallback RandInt pattern1 pattern2 =
     (case PatternsIntersect_sampling RandInt pattern1 pattern2 of
        Inl e \<Rightarrow> Inl e
      | Inr (Some answer) \<Rightarrow> Inr answer
      | Inr None \<Rightarrow> PatternsIntersectSlow pattern1 pattern2)"

definition PatternsIntersect ::
  "Pattern \<Rightarrow> nat \<Rightarrow> (nat \<Rightarrow> nat \<Rightarrow> int) \<Rightarrow> Pattern \<Rightarrow> Pattern \<Rightarrow> error + bool" where
  "PatternsIntersect fresh fuel RandInt pattern1 pattern2 =
     (if PatternsIntersect_ranges_disjoint pattern1 pattern2 then Inr False
      else
        case (if fst (ComputeMinAndMaxMindex pattern2) \<ge> fst (ComputeMinAndMaxMindex pattern1)
              then PatternContains pattern1 (fst (ComputeMinAndMaxMindex pattern2))
              else PatternContains pattern2 (fst (ComputeMinAndMaxMindex pattern1))) of
          Inl e \<Rightarrow> Inl e
        | Inr found \<Rightarrow>
            if found then Inr True
            else
              (case ComputeIntersection fresh fuel pattern1 pattern2 False of
                 Inl e \<Rightarrow> Inl e
               | Inr (converted, intersection) \<Rightarrow>
                   if converted then Inr (intersection \<noteq> [])
                   else PatternsIntersect_fallback RandInt pattern1 pattern2))"

subsection \<open>Extremes of a memory-index set\<close>

text \<open>
  The least and the greatest value of \<open>\<Sum> index\<^sub>i * stride\<^sub>i\<close> over the index tuples of a
  list of axes: an axis with a positive stride adds \<open>(dim - 1) * stride\<close> to the greatest
  value, any other axis adds it to the least.
\<close>

fun lowest :: "(int \<times> int) list \<Rightarrow> int" where
  "lowest [] = 0"
| "lowest ((dim, stride) # axes) = (if stride > 0 then 0 else (dim - 1) * stride) + lowest axes"

fun highest :: "(int \<times> int) list \<Rightarrow> int" where
  "highest [] = 0"
| "highest ((dim, stride) # axes) = (if stride > 0 then (dim - 1) * stride else 0) + highest axes"

section \<open>Concrete patterns\<close>

definition pat1 :: "int \<Rightarrow> int \<Rightarrow> int \<Rightarrow> int \<Rightarrow> Pattern" where
  "pat1 dim stride off c =
     \<lparr>num_axes = 1, dims = [dim, 1, 1, 1, 1], strides = [stride, 0, 0, 0, 0],
      offset = off, code = c\<rparr>"

definition pat2 :: "int \<Rightarrow> int \<Rightarrow> int \<Rightarrow> int \<Rightarrow> int \<Rightarrow> int \<Rightarrow> Pattern" where
  "pat2 dim0 dim1 stride0 stride1 off c =
     \<lparr>num_axes = 2, dims = [dim0, dim1, 1, 1, 1], strides = [stride0, stride1, 0, 0, 0],
      offset = off, code = c\<rparr>"

definition pat3 ::
  "int \<Rightarrow> int \<Rightarrow> int \<Rightarrow> int \<Rightarrow> int \<Rightarrow> int \<Rightarrow> int \<Rightarrow> int \<Rightarrow> Pattern" where
  "pat3 dim0 dim1 dim2 stride0 stride1 stride2 off c =
     \<lparr>num_axes = 3, dims = [dim0, dim1, dim2, 1, 1],
      strides = [stride0, stride1, stride2, 0, 0], offset = off, code = c\<rparr>"

section \<open>Results\<close>

lemma upto_eval: "[i..j] = (if i \<le> j then i # [i + 1..j] else [])"
  by (rule upto.simps)

text \<open>
  C4.  The claim: for a valid pattern, bit \<open>raxis\<close> of \<^verbatim>\<open>ComputePatternCode\<close> is set exactly
  when axis \<open>raxis\<close> has dim other than 1, bits 8 to 10 hold \<open>n\<close>, and bit 11 is set exactly
  when some stride is negative.  The code shifts \<^verbatim>\<open>ans\<close> left after every axis, also the
  last one, and tests \<^verbatim>\<open>dim < 0\<close> where the stride was meant: on the valid one-axis pattern
  with dim 3, stride -1 and offset 2 the value it builds is 2, so bit 0 is clear although
  axis 0 has dim 3, and bit 11 is clear although the stride is negative.  The function
  then ends without returning that value.
\<close>

theorem C4_code_misplaces_bits:
  "IsValid (pat1 3 (-1) 2 c) \<and>
   dims (pat1 3 (-1) 2 c) ! 0 \<noteq> 1 \<and> strides (pat1 3 (-1) 2 c) ! 0 < 0 \<and>
   ComputePatternCode_ans (pat1 3 (-1) 2 c) = 2 \<and>
   \<not> bit (ComputePatternCode_ans (pat1 3 (-1) 2 c)) 0 \<and>
   \<not> bit (ComputePatternCode_ans (pat1 3 (-1) 2 c)) 11 \<and>
   ComputePatternCode (pat1 3 (-1) 2 c) = Inl UndefinedBehaviour"
proof -
  have v: "IsValid (pat1 3 (-1) 2 c)"
    by (simp add: IsValid_def pat1_def KALDI_TENSOR_MAX_AXES_def upt_rec)
  have c: "ComputePatternCode_ans (pat1 3 (-1) 2 c) = 2"
    by (simp add: ComputePatternCode_ans_def ComputePatternCode_step_def pat1_def upt_rec)
  have u: "ComputePatternCode (pat1 3 (-1) 2 c) = Inl UndefinedBehaviour"
    by (simp add: ComputePatternCode_def)
  show ?thesis
    using v c u by (simp add: pat1_def)
qed

subsection \<open>Extremes of a memory-index set\<close>

text \<open>
  For a valid pattern the two numbers that \<^verbatim>\<open>ComputeMinAndMaxMindex\<close> returns are the
  least and the greatest memory index less the offset of the pattern.
\<close>

lemma index_times_stride_bounds:
  fixes i d s :: int
  assumes "0 \<le> i" and "i \<le> d - 1"
  shows "(if s > 0 then 0 else (d - 1) * s) \<le> i * s"
    and "i * s \<le> (if s > 0 then (d - 1) * s else 0)"
proof -
  show "(if s > 0 then 0 else (d - 1) * s) \<le> i * s"
  proof (cases "s > 0")
    case True
    then show ?thesis using assms(1) by simp
  next
    case False
    then have "s \<le> 0" by simp
    then have "(d - 1) * s \<le> i * s"
      using assms(2) by (rule mult_right_mono_neg [rotated])
    then show ?thesis using False by simp
  qed
  show "i * s \<le> (if s > 0 then (d - 1) * s else 0)"
  proof (cases "s > 0")
    case True
    then have "i * s \<le> (d - 1) * s"
      using assms(2) by (simp add: mult_right_mono)
    then show ?thesis using True by simp
  next
    case False
    then have "s \<le> 0" by simp
    then have "i * s \<le> 0"
      using assms(1) by (simp add: mult_nonneg_nonpos)
    then show ?thesis using False by simp
  qed
qed

lemma mindexes_bounds:
  assumes "x \<in> set (mindexes axes m)"
  shows "m + lowest axes \<le> x \<and> x \<le> m + highest axes"
  using assms
proof (induction axes arbitrary: m)
  case Nil
  then show ?case by simp
next
  case (Cons a axes)
  obtain d s where a: "a = (d, s)" by (cases a)
  from Cons.prems obtain i where i: "0 \<le> i" "i \<le> d - 1"
    and x: "x \<in> set (mindexes axes (m + i * s))"
    unfolding a by auto
  from Cons.IH [OF x] index_times_stride_bounds [OF i, of s]
  show ?case unfolding a by auto
qed

lemma mindexes_lowest:
  assumes "\<forall>(d, s) \<in> set axes. 1 \<le> d"
  shows "m + lowest axes \<in> set (mindexes axes m)"
  using assms
proof (induction axes arbitrary: m)
  case Nil
  then show ?case by simp
next
  case (Cons a axes)
  obtain d s where a: "a = (d, s)" by (cases a)
  have d: "1 \<le> d" using Cons.prems a by simp
  have ih: "\<And>m. m + lowest axes \<in> set (mindexes axes m)"
    using Cons by simp
  show ?case
  proof (cases "s > 0")
    case True
    have "m + 0 * s + lowest axes \<in> set (mindexes axes (m + 0 * s))" by (rule ih)
    then show ?thesis unfolding a using True d
      by (auto intro!: bexI [of _ 0])
  next
    case False
    have "m + (d - 1) * s + lowest axes \<in> set (mindexes axes (m + (d - 1) * s))" by (rule ih)
    then show ?thesis unfolding a using False d
      by (auto intro!: bexI [of _ "d - 1"] simp: algebra_simps)
  qed
qed

lemma mindexes_highest:
  assumes "\<forall>(d, s) \<in> set axes. 1 \<le> d"
  shows "m + highest axes \<in> set (mindexes axes m)"
  using assms
proof (induction axes arbitrary: m)
  case Nil
  then show ?case by simp
next
  case (Cons a axes)
  obtain d s where a: "a = (d, s)" by (cases a)
  have d: "1 \<le> d" using Cons.prems a by simp
  have ih: "\<And>m. m + highest axes \<in> set (mindexes axes m)"
    using Cons by simp
  show ?case
  proof (cases "s > 0")
    case False
    have "m + 0 * s + highest axes \<in> set (mindexes axes (m + 0 * s))" by (rule ih)
    then show ?thesis unfolding a using False d
      by (auto intro!: bexI [of _ 0])
  next
    case True
    have "m + (d - 1) * s + highest axes \<in> set (mindexes axes (m + (d - 1) * s))" by (rule ih)
    then show ?thesis unfolding a using True d
      by (auto intro!: bexI [of _ "d - 1"] simp: algebra_simps)
  qed
qed

lemma Min_mindexes:
  assumes "\<forall>(d, s) \<in> set axes. 1 \<le> d"
  shows "Min (set (mindexes axes m)) = m + lowest axes"
    and "Max (set (mindexes axes m)) = m + highest axes"
proof -
  show "Min (set (mindexes axes m)) = m + lowest axes"
    by (rule Min_eqI) (auto simp: mindexes_bounds mindexes_lowest [OF assms])
  show "Max (set (mindexes axes m)) = m + highest axes"
    by (rule Max_eqI) (auto simp: mindexes_bounds mindexes_highest [OF assms])
qed


lemma fold_over_axes:
  assumes "n \<le> length ds" and "n \<le> length ss"
  shows "fold (\<lambda>r. g (ds ! r) (ss ! r)) [0..<n] a =
         fold (\<lambda>(d, s). g d s) (zip (take n ds) (take n ss)) a"
  using assms
proof (induction n)
  case 0
  then show ?case by simp
next
  case (Suc n)
  have t: "take (Suc n) ds = take n ds @ [ds ! n]" "take (Suc n) ss = take n ss @ [ss ! n]"
    using Suc.prems by (simp_all add: take_Suc_conv_app_nth)
  have l: "length (take n ds) = length (take n ss)"
    using Suc.prems by simp
  show ?case
    unfolding t using Suc l by simp
qed

lemma fold_lowest_highest:
  "fold (\<lambda>(d, s) (mn, mx). let prod = (d - 1) * s
                            in if s > 0 then (mn, mx + prod) else (mn + prod, mx))
        axes (a, b) = (a + lowest axes, b + highest axes)"
  by (induction axes arbitrary: a b) (auto simp: Let_def)

lemma ContainsNegativeStride_always: "ContainsNegativeStride c"
  by (simp add: ContainsNegativeStride_def kPatternContainsNegativeStride_def or_eq_0_iff)

lemma ComputeMinAndMaxMindex_eq:
  assumes "num_axes p \<le> length (dims p)" and "num_axes p \<le> length (strides p)"
  shows "ComputeMinAndMaxMindex p = (lowest (axes_of p), highest (axes_of p))"
proof -
  have "ComputeMinAndMaxMindex p =
        fold (\<lambda>r. (\<lambda>d s (mn, mx). let prod = (d - 1) * s
                                   in if s > 0 then (mn, mx + prod) else (mn + prod, mx))
                     (dims p ! r) (strides p ! r))
             [0..<num_axes p] (0, 0)"
    by (simp add: ComputeMinAndMaxMindex_def ContainsNegativeStride_always)
  also have "\<dots> = fold (\<lambda>(d, s) (mn, mx). let prod = (d - 1) * s
                            in if s > 0 then (mn, mx + prod) else (mn + prod, mx))
                     (axes_of p) (0, 0)"
    unfolding axes_of_def by (rule fold_over_axes [OF assms])
  also have "\<dots> = (0 + lowest (axes_of p), 0 + highest (axes_of p))"
    by (rule fold_lowest_highest)
  finally show ?thesis by simp
qed

lemma IsValid_dims_positive:
  assumes "IsValid p"
  shows "\<forall>(d, s) \<in> set (axes_of p). 1 \<le> d"
proof -
  have n: "num_axes p \<le> KALDI_TENSOR_MAX_AXES" "length (dims p) = KALDI_TENSOR_MAX_AXES"
    using assms by (simp_all add: IsValid_def)
  have "\<forall>r \<in> set [0..<KALDI_TENSOR_MAX_AXES].
          1 < dims p ! r \<or> (dims p ! r = 1 \<and> strides p ! r = 0)"
    using assms unfolding IsValid_def list_all_iff by blast
  then have a: "\<forall>r < KALDI_TENSOR_MAX_AXES. 1 \<le> dims p ! r"
    by force
  show ?thesis
    using n a by (auto simp: axes_of_def in_set_zip)
qed

lemma ComputeMinAndMaxMindex_relative:
  assumes "IsValid p"
  shows "Min (MemoryIndexSet p) = offset p + fst (ComputeMinAndMaxMindex p)"
    and "Max (MemoryIndexSet p) = offset p + snd (ComputeMinAndMaxMindex p)"
proof -
  have l: "num_axes p \<le> length (dims p)" "num_axes p \<le> length (strides p)"
    using assms by (simp_all add: IsValid_def)
  show "Min (MemoryIndexSet p) = offset p + fst (ComputeMinAndMaxMindex p)"
    unfolding MemoryIndexSet_def ComputeMinAndMaxMindex_eq [OF l]
    by (simp add: Min_mindexes(1) [OF IsValid_dims_positive [OF assms]])
  show "Max (MemoryIndexSet p) = offset p + snd (ComputeMinAndMaxMindex p)"
    unfolding MemoryIndexSet_def ComputeMinAndMaxMindex_eq [OF l]
    by (simp add: Min_mindexes(2) [OF IsValid_dims_positive [OF assms]])
qed

text \<open>
  C3.  The claim: \<^verbatim>\<open>ComputeMinAndMaxMindex\<close> returns the least and the greatest element of
  the memory-index set, offset included, so that the first stage of \<^verbatim>\<open>PatternsIntersect\<close>
  rejects exactly the pairs whose ranges are disjoint.  The code starts both sums at 0 and
  never adds \<^verbatim>\<open>pattern.offset\<close>, so that its results are the extremes less the offset
  (\<open>ComputeMinAndMaxMindex_relative\<close>): for the valid pattern with dim 3, stride 1 and
  offset 10 (memory indexes 10, 11, 12) it returns \<open>(0, 2)\<close>, and the first stage does
  not reject the pair of that pattern and the one with offset 0 (memory indexes 0, 1, 2).
\<close>

theorem C3_extremes_omit_offset:
  "IsValid (pat1 3 1 10 c) \<and>
   MemoryIndexSet (pat1 3 1 10 c) = {10, 11, 12} \<and>
   ComputeMinAndMaxMindex (pat1 3 1 10 c) = (0, 2) \<and>
   Min (MemoryIndexSet (pat1 3 1 10 c)) = 10 \<and>
   Max (MemoryIndexSet (pat1 3 1 10 c)) = 12 \<and>
   IsValid (pat1 3 1 0 c) \<and>
   MemoryIndexSet (pat1 3 1 0 c) = {0, 1, 2} \<and>
   PatternsIntersect_ranges_disjoint (pat1 3 1 0 c) (pat1 3 1 10 c) = False"
proof -
  have v: "IsValid (pat1 3 1 10 c)" "IsValid (pat1 3 1 0 c)"
    by (simp_all add: IsValid_def pat1_def KALDI_TENSOR_MAX_AXES_def upt_rec)
  have s: "MemoryIndexSet (pat1 3 1 10 c) = {10, 11, 12}"
          "MemoryIndexSet (pat1 3 1 0 c) = {0, 1, 2}"
    by (simp_all add: MemoryIndexSet_def axes_of_def pat1_def upto_eval)
  have m: "ComputeMinAndMaxMindex (pat1 3 1 10 c) = (0, 2)"
          "ComputeMinAndMaxMindex (pat1 3 1 0 c) = (0, 2)"
    by (simp_all add: ComputeMinAndMaxMindex_def ContainsNegativeStride_def pat1_def upt_rec)
  have r: "PatternsIntersect_ranges_disjoint (pat1 3 1 0 c) (pat1 3 1 10 c) = False"
    by (simp add: PatternsIntersect_ranges_disjoint_def m)
  show ?thesis
    using v m r by (simp add: s)
qed


text \<open>
  C8.  The claim: \<^verbatim>\<open>Unsqueeze(-1, p)\<close> inserts the trivial axis as the last public axis,
  as \<^verbatim>\<open>Unsqueeze(n, p)\<close> does, and \<^verbatim>\<open>Squeeze(-1, p)\<close> removes the last public axis, as
  \<^verbatim>\<open>Squeeze(n - 1, p)\<close> does; the header documents \<^verbatim>\<open>Unsqueeze([9,10], -1) -> [9,10,1]\<close>
  and \<^verbatim>\<open>Squeeze([7,1], -1) -> [7]\<close>.  The wrappers translate a negative axis to the
  private index \<^verbatim>\<open>1 - axis\<close>, which is 2 for -1, where the last public axis is private
  index 0.  On the pattern of public shape \<open>[9,10]\<close> (private dims 10, 9)
  \<^verbatim>\<open>Unsqueeze(-1, p)\<close> gives the private dims 10, 9, 1, the public shape \<open>[1,9,10]\<close>,
  where \<^verbatim>\<open>Unsqueeze(2, p)\<close> gives 1, 10, 9, the public shape \<open>[9,10,1]\<close>.  On the pattern
  of public shape \<open>[7,1]\<close> \<^verbatim>\<open>Squeeze(-1, p)\<close> asks \<^verbatim>\<open>SqueezeR\<close> for the private axis 2,
  which does not exist, where \<^verbatim>\<open>Squeeze(1, p)\<close> removes the private axis 0.
\<close>

theorem C8_negative_axis_not_last:
  "IsValid (pat2 10 9 1 10 0 c) \<and>
   Unsqueeze (- 1) (pat2 10 9 1 10 0 c) = Inr (pat3 10 9 1 1 10 0 0 c) \<and>
   Unsqueeze 2 (pat2 10 9 1 10 0 c) = Inr (pat3 1 10 9 0 1 10 0 (- 1)) \<and>
   IsValid (pat2 1 7 0 1 0 c) \<and>
   Squeeze (- 1) (pat2 1 7 0 1 0 c) = SqueezeR 2 (pat2 1 7 0 1 0 c) \<and>
   Squeeze (- 1) (pat2 1 7 0 1 0 c) = Inl KaldiError \<and>
   Squeeze 1 (pat2 1 7 0 1 0 c) = Inr (pat1 7 1 0 (- 1))"
proof -
  have v: "IsValid (pat2 10 9 1 10 0 c)" "IsValid (pat2 1 7 0 1 0 c)"
    by (simp_all add: IsValid_def pat2_def KALDI_TENSOR_MAX_AXES_def upt_rec)
  have u1: "Unsqueeze (- 1) (pat2 10 9 1 10 0 c) = Inr (pat3 10 9 1 1 10 0 0 c)"
    by (simp add: Unsqueeze_def UnsqueezeR_def pat2_def pat3_def KALDI_TENSOR_MAX_AXES_def
        upt_rec Let_def)
  have u2: "Unsqueeze 2 (pat2 10 9 1 10 0 c) = Inr (pat3 1 10 9 0 1 10 0 (- 1))"
    by (simp add: Unsqueeze_def UnsqueezeR_def pat2_def pat3_def KALDI_TENSOR_MAX_AXES_def
        upt_rec Let_def)
  have s1: "Squeeze (- 1) (pat2 1 7 0 1 0 c) = SqueezeR 2 (pat2 1 7 0 1 0 c)"
    by (simp add: Squeeze_def)
  have s2: "SqueezeR 2 (pat2 1 7 0 1 0 c) = Inl KaldiError"
    by (simp add: SqueezeR_def pat2_def)
  have s3: "Squeeze 1 (pat2 1 7 0 1 0 c) = Inr (pat1 7 1 0 (- 1))"
    by (simp add: Squeeze_def SqueezeR_def pat2_def pat1_def)
  show ?thesis
    using v u1 u2 s1 s2 s3 by simp
qed

text \<open>
  C9.  The claim: after \<^verbatim>\<open>Transpose\<close>, \<^verbatim>\<open>Slice\<close>, \<^verbatim>\<open>Squeeze\<close> or \<^verbatim>\<open>Unsqueeze\<close> on a
  valid pattern with an up-to-date code, the code is -1 or equals what
  \<^verbatim>\<open>ComputePatternCode\<close> returns for the result; the value to compare with is the one
  that function builds, \<open>ComputePatternCode_ans\<close>.  \<^verbatim>\<open>Slice\<close> patches the code when the new
  dim is 1, and clears bit \<^verbatim>\<open>raxis - 1\<close>: on the pattern with private dims 4, 3, strides
  1, 4 and the up-to-date code 262, slicing the public axis 0 (private axis 1) to
  \<open>[0, 1)\<close> leaves the code 262 where recomputing gives 260.  \<^verbatim>\<open>UnsqueezeR\<close> keeps the code
  when the axis is added at \<^verbatim>\<open>raxis = num_axes\<close>: on the pattern with dim 3, stride 1
  and the up-to-date code 258, \<^verbatim>\<open>Unsqueeze(0, p)\<close> keeps 258 where recomputing gives 260.
\<close>

theorem C9_code_stale_but_kept:
  "IsValid (pat2 4 3 1 4 0 262) \<and>
   ComputePatternCode_ans (pat2 4 3 1 4 0 262) = code (pat2 4 3 1 4 0 262) \<and>
   Slice (\<lambda>eaxis. 1 - eaxis) 0 0 1 (pat2 4 3 1 4 0 262) = Inr (pat2 4 1 1 4 0 262) \<and>
   ComputePatternCode_ans (pat2 4 1 1 4 0 262) = 260 \<and>
   IsValid (pat1 3 1 0 258) \<and>
   ComputePatternCode_ans (pat1 3 1 0 258) = code (pat1 3 1 0 258) \<and>
   Unsqueeze 0 (pat1 3 1 0 258) = Inr (pat2 3 1 1 0 0 258) \<and>
   ComputePatternCode_ans (pat2 3 1 1 0 0 258) = 260"
proof -
  have v: "IsValid (pat2 4 3 1 4 0 262)" "IsValid (pat1 3 1 0 258)"
    by (simp_all add: IsValid_def pat1_def pat2_def KALDI_TENSOR_MAX_AXES_def upt_rec)
  have c: "ComputePatternCode_ans (pat2 4 3 1 4 0 262) = 262"
          "ComputePatternCode_ans (pat2 4 1 1 4 0 262) = 260"
          "ComputePatternCode_ans (pat1 3 1 0 258) = 258"
          "ComputePatternCode_ans (pat2 3 1 1 0 0 258) = 260"
    by (simp_all add: ComputePatternCode_ans_def ComputePatternCode_step_def pat1_def pat2_def
        upt_rec)
  have a: "(262::int) AND NOT 1 = 262"
    by (simp add: and_not_numerals)
  have s: "Slice (\<lambda>eaxis. 1 - eaxis) 0 0 1 (pat2 4 3 1 4 0 262) = Inr (pat2 4 1 1 4 0 262)"
    by (simp add: Slice_def uint32_def int32_def pat2_def KALDI_TENSOR_MAX_AXES_def Let_def a)
  have u: "Unsqueeze 0 (pat1 3 1 0 258) = Inr (pat2 3 1 1 0 0 258)"
    by (simp add: Unsqueeze_def UnsqueezeR_def pat1_def pat2_def KALDI_TENSOR_MAX_AXES_def
        upt_rec Let_def)
  show ?thesis
    using v c s u by (simp add: pat1_def pat2_def)
qed

subsection \<open>Regularity\<close>

lemma smod_eq_0_iff_dvd: "(s::int) \<noteq> 0 \<Longrightarrow> x smod s = 0 \<longleftrightarrow> s dvd x"
proof -
  assume "s \<noteq> 0"
  have "x smod s = 0 \<longleftrightarrow> \<bar>x\<bar> mod \<bar>s\<bar> = 0"
    by (cases "x = 0") (simp_all add: signed_modulo_int_def sgn_if)
  also have "\<dots> \<longleftrightarrow> \<bar>s\<bar> dvd \<bar>x\<bar>"
    by (simp add: dvd_eq_mod_eq_0)
  also have "\<dots> \<longleftrightarrow> s dvd x"
    by simp
  finally show ?thesis .
qed

lemma find_upt_takeWhile:
  "[a..<(case find P [a..<n] of None \<Rightarrow> n | Some k \<Rightarrow> k)] = takeWhile (\<lambda>j. \<not> P j) [a..<n]"
proof (induction "n - a" arbitrary: a)
  case 0
  then show ?case by simp
next
  case (Suc d)
  then have an: "a < n" by simp
  have d: "d = n - Suc a" using Suc.hyps(2) by simp
  have u: "[a..<n] = a # [Suc a..<n]" using an by (simp add: upt_rec)
  show ?case
  proof (cases "P a")
    case True
    then show ?thesis unfolding u by simp
  next
    case False
    have le: "Suc a \<le> (case find P [Suc a..<n] of None \<Rightarrow> n | Some k \<Rightarrow> k)"
      using an by (auto split: option.splits dest!: find_Some_iff [THEN iffD1])
    show ?thesis
      unfolding u using False Suc.hyps(1) [OF d, symmetric] le
      by (simp add: upt_rec [of a])
  qed
qed

text \<open>
  What \<^verbatim>\<open>IsRegular\<close> computes, for a pattern in which no axis of dim 1 has a negative
  stride: the inner loop never reaches a division that is undefined, and the function
  returns true exactly when every axis between \<open>i\<close> and the first axis whose stride
  reaches the 32-bit product for \<open>i\<close> has dim 1 and a stride divisible by that of \<open>i\<close>.
  Every valid pattern is such a pattern.
\<close>

lemma IsRegular_scan_eq:
  assumes "\<forall>j \<in> set js. dims p ! j = 1 \<longrightarrow> 0 \<le> strides p ! j" and "s = 0 \<longrightarrow> pr \<le> 0"
  shows "IsRegular_scan p s pr js =
         Inr (list_all (\<lambda>j. dims p ! j = 1 \<and> s dvd strides p ! j)
                (takeWhile (\<lambda>j. \<not> pr \<le> strides p ! j) js))"
  using assms
proof (induction js)
  case Nil
  then show ?case by simp
next
  case (Cons j js)
  have nn: "dims p ! j = 1 \<Longrightarrow> 0 \<le> strides p ! j"
    using Cons.prems by simp
  have z: "dims p ! j = 1 \<Longrightarrow> s = 0 \<Longrightarrow> pr \<le> strides p ! j"
    using Cons.prems by force
  have u: "dims p ! j = 1 \<Longrightarrow> \<not> pr \<le> strides p ! j \<Longrightarrow>
           \<not> div_undefined (strides p ! j) s"
    using nn z by (auto simp: div_undefined_def)
  have nz: "dims p ! j = 1 \<Longrightarrow> \<not> pr \<le> strides p ! j \<Longrightarrow> s \<noteq> 0"
    using z by auto
  have ih: "IsRegular_scan p s pr js =
         Inr (list_all (\<lambda>j. dims p ! j = 1 \<and> s dvd strides p ! j)
                (takeWhile (\<lambda>j. \<not> pr \<le> strides p ! j) js))"
    using Cons by simp
  show ?case
    using u nz by (simp add: ih smod_eq_0_iff_dvd)
qed

lemma first_at_least_interval:
  "[i + 1..<first_at_least p b i] =
   takeWhile (\<lambda>j. \<not> b \<le> strides p ! j) [i + 1..<num_axes p]"
  unfolding first_at_least_def by (rule find_upt_takeWhile)

lemma int32_0: "int32 0 = 0"
  by (simp add: int32_def)

lemma IsRegular_loop_eq:
  assumes "\<forall>j < num_axes p. dims p ! j = 1 \<longrightarrow> 0 \<le> strides p ! j"
  shows "IsRegular_loop p is =
         Inr (list_all (\<lambda>i.
                list_all (\<lambda>j. dims p ! j = 1 \<and> strides p ! i dvd strides p ! j)
                  [i + 1..<first_at_least p (int32 (strides p ! i * dims p ! i)) i]) is)"
proof (induction "is")
  case Nil
  then show ?case by simp
next
  case (Cons i "is")
  have nn: "\<forall>j \<in> set [i + 1..<num_axes p]. dims p ! j = 1 \<longrightarrow> 0 \<le> strides p ! j"
    using assms by simp
  have z: "strides p ! i = 0 \<longrightarrow> int32 (strides p ! i * dims p ! i) \<le> 0"
    by (simp add: int32_0)
  have scan: "IsRegular_scan p (strides p ! i) (int32 (strides p ! i * dims p ! i))
                 [i + 1..<num_axes p] =
               Inr (list_all (\<lambda>j. dims p ! j = 1 \<and> strides p ! i dvd strides p ! j)
                      [i + 1..<first_at_least p (int32 (strides p ! i * dims p ! i)) i])"
    unfolding first_at_least_interval by (rule IsRegular_scan_eq [OF nn z])
  show ?case
    unfolding IsRegular_loop.simps scan by (simp add: Cons)
qed

lemma IsRegular_eq:
  assumes "\<forall>j < num_axes p. dims p ! j = 1 \<longrightarrow> 0 \<le> strides p ! j"
  shows "IsRegular p =
         Inr (list_all (\<lambda>i.
                list_all (\<lambda>j. dims p ! j = 1 \<and> strides p ! i dvd strides p ! j)
                  [i + 1..<first_at_least p (int32 (strides p ! i * dims p ! i)) i])
                [0..<num_axes p])"
proof -
  let ?ok = "\<lambda>i. list_all (\<lambda>j. dims p ! j = 1 \<and> strides p ! i dvd strides p ! j)
                  [i + 1..<first_at_least p (int32 (strides p ! i * dims p ! i)) i]"
  have "list_all ?ok [0..<num_axes p] = list_all ?ok [0..<num_axes p - 1]"
  proof (cases "num_axes p")
    case 0
    then show ?thesis by simp
  next
    case (Suc n)
    have "first_at_least p b n = Suc n" for b
      by (simp add: first_at_least_def Suc)
    then show ?thesis
      by (simp add: Suc)
  qed
  then show ?thesis
    unfolding IsRegular_def IsRegular_loop_eq [OF assms] by simp
qed

lemma int32_in_range: "- 2147483648 \<le> x \<Longrightarrow> x < 2147483648 \<Longrightarrow> int32 x = x"
  by (simp add: int32_def)

lemma IsValid_trivial_stride:
  assumes "IsValid p" and "i < num_axes p" and "dims p ! i = 1"
  shows "strides p ! i = 0"
proof -
  have "i < KALDI_TENSOR_MAX_AXES"
    using assms(1,2) by (simp add: IsValid_def)
  then have "1 < dims p ! i \<or> (dims p ! i = 1 \<and> strides p ! i = 0)"
    using assms(1) by (simp add: IsValid_def list_all_iff)
  then show ?thesis using assms(3) by simp
qed

lemma IsValid_trivial_strides_nonnegative:
  assumes "IsValid p"
  shows "trivial_strides_nonnegative p"
  unfolding trivial_strides_nonnegative_def list_all_iff
  using IsValid_trivial_stride [OF assms] by force

text \<open>
  C5.  The claim: on a canonical pattern \<^verbatim>\<open>IsRegular\<close> returns true exactly when
  \<open>Regular_either\<close> holds.  The code returns \<^verbatim>\<open>false\<close> at an axis \<open>j\<close> between \<open>i\<close> and
  \<open>k\<close> unless \<open>dim\<^sub>j = 1\<close> and \<open>stride\<^sub>i\<close> divides \<open>stride\<^sub>j\<close>, as
  \<^verbatim>\<open>EnsureAxisSortingPropertyHolds\<close> does, whose second loop relies on those axes having
  dim 1; and it treats an axis \<open>i\<close> with dim 1 like any other.  For every pattern in which
  no axis of dim 1 has a negative stride (every valid pattern, so every canonical one) and
  whose products \<open>stride\<^sub>i * dim\<^sub>i\<close> lie in the range of \<^verbatim>\<open>int32\<close>, it returns true exactly
  when \<open>Regular_both\<close> holds.
\<close>

theorem C5_amended:
  assumes "trivial_strides_nonnegative p" and "products_fit_int32 p"
  shows "IsRegular p = Inr (Regular_both p)"
proof -
  have "\<forall>j \<in> set [0..<num_axes p].
          dims p ! j < 1 \<or> 1 < dims p ! j \<or> 0 \<le> strides p ! j"
    using assms(1) unfolding trivial_strides_nonnegative_def list_all_iff .
  then have t: "\<forall>j < num_axes p. dims p ! j = 1 \<longrightarrow> 0 \<le> strides p ! j"
    by force
  have "\<forall>i \<in> set [0..<num_axes p].
          - 2147483648 \<le> strides p ! i * dims p ! i \<and> strides p ! i * dims p ! i < 2147483648"
    using assms(2) unfolding products_fit_int32_def list_all_iff .
  then have f: "\<forall>i \<in> set [0..<num_axes p].
                  int32 (strides p ! i * dims p ! i) = strides p ! i * dims p ! i"
    by (simp add: int32_in_range)
  have "list_all (\<lambda>i.
                list_all (\<lambda>j. dims p ! j = 1 \<and> strides p ! i dvd strides p ! j)
                  [i + 1..<first_at_least p (int32 (strides p ! i * dims p ! i)) i])
                [0..<num_axes p] = Regular_both p"
    unfolding Regular_both_def list_all_iff using f by simp
  then show ?thesis
    unfolding IsRegular_eq [OF t] by simp
qed

text \<open>
  The theorem at five patterns.  Dims 3, 2 with strides 2, 6 are regular, with strides
  2, 5 they are not.  Two have an axis of dim 1 with a stride other than 0 between two
  axes, so that the divisibility decides: dims 3, 1, 2 with strides 2, 4, 8 are regular,
  with strides 2, 3, 8 they are not.  In the last, dims 3, 2 with strides 2, 4, the
  stride of axis 1 is divisible and its dim decides.
\<close>

theorem C5_witness:
  "trivial_strides_nonnegative (pat2 3 2 2 6 0 (- 1)) \<and>
   products_fit_int32 (pat2 3 2 2 6 0 (- 1)) \<and>
   IsRegular (pat2 3 2 2 6 0 (- 1)) = Inr (Regular_both (pat2 3 2 2 6 0 (- 1))) \<and>
   Regular_both (pat2 3 2 2 6 0 (- 1)) = True \<and>
   trivial_strides_nonnegative (pat2 3 2 2 5 0 (- 1)) \<and>
   products_fit_int32 (pat2 3 2 2 5 0 (- 1)) \<and>
   IsRegular (pat2 3 2 2 5 0 (- 1)) = Inr (Regular_both (pat2 3 2 2 5 0 (- 1))) \<and>
   Regular_both (pat2 3 2 2 5 0 (- 1)) = False \<and>
   trivial_strides_nonnegative (pat3 3 1 2 2 4 8 0 (- 1)) \<and>
   products_fit_int32 (pat3 3 1 2 2 4 8 0 (- 1)) \<and>
   IsRegular (pat3 3 1 2 2 4 8 0 (- 1)) = Inr (Regular_both (pat3 3 1 2 2 4 8 0 (- 1))) \<and>
   Regular_both (pat3 3 1 2 2 4 8 0 (- 1)) = True \<and>
   trivial_strides_nonnegative (pat3 3 1 2 2 3 8 0 (- 1)) \<and>
   products_fit_int32 (pat3 3 1 2 2 3 8 0 (- 1)) \<and>
   IsRegular (pat3 3 1 2 2 3 8 0 (- 1)) = Inr (Regular_both (pat3 3 1 2 2 3 8 0 (- 1))) \<and>
   Regular_both (pat3 3 1 2 2 3 8 0 (- 1)) = False \<and>
   trivial_strides_nonnegative (pat2 3 2 2 4 0 (- 1)) \<and>
   products_fit_int32 (pat2 3 2 2 4 0 (- 1)) \<and>
   IsRegular (pat2 3 2 2 4 0 (- 1)) = Inr (Regular_both (pat2 3 2 2 4 0 (- 1))) \<and>
   Regular_both (pat2 3 2 2 4 0 (- 1)) = False"
proof -
  have h: "trivial_strides_nonnegative (pat2 3 2 2 6 0 (- 1))"
          "trivial_strides_nonnegative (pat2 3 2 2 5 0 (- 1))"
          "trivial_strides_nonnegative (pat3 3 1 2 2 4 8 0 (- 1))"
          "trivial_strides_nonnegative (pat3 3 1 2 2 3 8 0 (- 1))"
          "trivial_strides_nonnegative (pat2 3 2 2 4 0 (- 1))"
    by (simp_all add: trivial_strides_nonnegative_def pat2_def pat3_def upt_rec)
  have f: "products_fit_int32 (pat2 3 2 2 6 0 (- 1))"
          "products_fit_int32 (pat2 3 2 2 5 0 (- 1))"
          "products_fit_int32 (pat3 3 1 2 2 4 8 0 (- 1))"
          "products_fit_int32 (pat3 3 1 2 2 3 8 0 (- 1))"
          "products_fit_int32 (pat2 3 2 2 4 0 (- 1))"
    by (simp_all add: products_fit_int32_def pat2_def pat3_def upt_rec)
  have r: "Regular_both (pat2 3 2 2 6 0 (- 1)) = True"
          "Regular_both (pat2 3 2 2 5 0 (- 1)) = False"
          "Regular_both (pat3 3 1 2 2 4 8 0 (- 1)) = True"
          "Regular_both (pat3 3 1 2 2 3 8 0 (- 1)) = False"
          "Regular_both (pat2 3 2 2 4 0 (- 1)) = False"
    by (simp_all add: Regular_both_def first_at_least_def pat2_def pat3_def upt_rec)
  show ?thesis
    using h f C5_amended [OF h(1) f(1)] C5_amended [OF h(2) f(2)] C5_amended [OF h(3) f(3)]
      C5_amended [OF h(4) f(4)] C5_amended [OF h(5) f(5)] r by simp
qed

text \<open>
  The claim as stated fails on the canonical pattern with dims 1, 3 and strides 0, -1,
  whose memory indexes 0, -1, -2 are distinct: axis 0 has dim 1 and axis 1 is the last
  one, so \<open>Regular_either\<close> holds; the code takes the product 0 for axis 0, finds the
  stride -1 of axis 1 below it, and returns false because that axis has dim 3.  It fails
  as well on the pattern with dims 3, 2 and strides 2, 4, which is canonical as the
  specification defines it, although two of its index tuples share the memory index 4:
  axis 1 lies between axis 0 and \<open>k = 2\<close> and its stride is divisible by 2, so
  \<open>Regular_either\<close> holds, and \<^verbatim>\<open>IsRegular\<close> returns false because its dim is 2.
\<close>

theorem C5_counterexample:
  "IsValid (pat2 1 3 0 (- 1) 0 (- 1)) \<and>
   IsCanonical (pat2 1 3 0 (- 1) 0 (- 1)) \<and>
   MemoryIndexSet (pat2 1 3 0 (- 1) 0 (- 1)) = {0, - 1, - 2} \<and>
   Regular_either (pat2 1 3 0 (- 1) 0 (- 1)) \<and>
   IsRegular (pat2 1 3 0 (- 1) 0 (- 1)) = Inr False \<and>
   IsValid (pat2 3 2 2 4 0 (- 1)) \<and>
   IsCanonical (pat2 3 2 2 4 0 (- 1)) \<and>
   Regular_either (pat2 3 2 2 4 0 (- 1)) \<and>
   IsRegular (pat2 3 2 2 4 0 (- 1)) = Inr False"
  by (simp add: IsCanonical_def IsValid_def pat2_def MemoryIndexSet_def axes_of_def upto_eval
      KALDI_TENSOR_MAX_AXES_def upt_rec Regular_either_def first_at_least_def IsRegular_def
      int32_def)

text \<open>
  \<^verbatim>\<open>IsRegular\<close> returns false only where the stride of some axis lies below the product
  for an axis before it.  On a pattern with the axis-dominance property of the glossary,
  \<open>stride\<^sub>i\<^sub>+\<^sub>1 \<ge> stride\<^sub>i * dim\<^sub>i\<close> for every \<open>i\<close>, both \<^verbatim>\<open>IsRegular\<close> and \<open>Regular_either\<close>
  hold; the definition of a canonical pattern in the data model does not ask for that
  property, and the two patterns above do not have it.
\<close>

lemma IsRegular_loop_axis_dominant:
  assumes "\<forall>i \<in> set is. i + 1 < num_axes p \<and>
             int32 (strides p ! i * dims p ! i) \<le> strides p ! (i + 1)"
  shows "IsRegular_loop p is = Inr True"
  using assms
proof (induction "is")
  case Nil
  show ?case by simp
next
  case (Cons i "is")
  have "[i + 1..<num_axes p] = (i + 1) # [i + 2..<num_axes p]"
    using Cons.prems by (simp add: upt_rec [of "Suc i"])
  then show ?case
    using Cons by simp
qed

lemma IsRegular_axis_dominant:
  assumes "\<forall>i. i + 1 < num_axes p \<longrightarrow>
             int32 (strides p ! i * dims p ! i) \<le> strides p ! (i + 1)"
  shows "IsRegular p = Inr True"
  unfolding IsRegular_def using assms by (intro IsRegular_loop_axis_dominant) auto

lemma Regular_either_axis_dominant:
  assumes "\<forall>i. i + 1 < num_axes p \<longrightarrow> strides p ! i * dims p ! i \<le> strides p ! (i + 1)"
  shows "Regular_either p"
proof -
  have e: "[i + 1..<first_at_least p (strides p ! i * dims p ! i) i] = []" for i
  proof (cases "i + 1 < num_axes p")
    case True
    then have "[i + 1..<num_axes p] = (i + 1) # [i + 2..<num_axes p]"
      by (simp add: upt_rec [of "Suc i"])
    then show ?thesis
      unfolding first_at_least_interval using assms True by simp
  next
    case False
    then show ?thesis
      unfolding first_at_least_interval by simp
  qed
  show ?thesis
    unfolding Regular_either_def e by (simp add: list_all_iff)
qed

text \<open>
  Outside the two conditions of the theorem.  Where a product leaves the range of
  \<^verbatim>\<open>int32\<close> the answer follows the 32-bit product: for dims 65536, 2 and strides 65536,
  2147418112 that product is 0, and \<^verbatim>\<open>IsRegular\<close> returns true.  Where an axis of dim 1
  has a negative stride the remainder can be one by zero: for dims 1, 1 and strides 0, -1
  it is.
\<close>

lemma IsRegular_product_in_int32:
  "IsValid (pat2 65536 2 65536 2147418112 0 (- 1)) \<and>
   \<not> products_fit_int32 (pat2 65536 2 65536 2147418112 0 (- 1)) \<and>
   IsRegular (pat2 65536 2 65536 2147418112 0 (- 1)) = Inr True \<and>
   \<not> Regular_both (pat2 65536 2 65536 2147418112 0 (- 1))"
  by (simp add: IsValid_def pat2_def KALDI_TENSOR_MAX_AXES_def upt_rec products_fit_int32_def
      Regular_both_def first_at_least_def IsRegular_def int32_def)

lemma IsRegular_remainder_by_zero:
  "\<not> trivial_strides_nonnegative (pat2 1 1 0 (- 1) 0 (- 1)) \<and>
   IsRegular (pat2 1 1 0 (- 1) 0 (- 1)) = Inl UndefinedBehaviour"
  by (simp add: trivial_strides_nonnegative_def pat2_def upt_rec IsRegular_def int32_def
      div_undefined_def)


subsection \<open>The set algebra\<close>

lemmas set_algebra_defs =
  ComputeIntersection_def CanonicalizePattern_def axes_of_def FindAllStrides_def
  ConvertPatternStrides_def ConvertPatternStridesLazily_def
  ConvertPatternStridesLazily_step_def EnsureAxisSortingPropertyHolds_def FindOffsets_def KALDI_TENSOR_MAX_AXES_def Let_def
  signed_divide_int_def int32_def div_undefined_def

text \<open>
  \<^verbatim>\<open>FindOffsets\<close> starts \<^verbatim>\<open>FindOffsetsRecursive\<close> on an empty \<^verbatim>\<open>offsets_out\<close>, and no
  path through the recursion adds an element to an empty list.  So a list that
  \<^verbatim>\<open>ComputeIntersection\<close> returns for patterns with an axis is empty, and
  \<^verbatim>\<open>PatternIsSubsetOf(p, q)\<close> returns true for no valid \<open>p\<close> with an axis.
\<close>

lemma FindOffsetsRecursive_empty:
  "FindOffsetsRecursive pattern1 pattern2 r known_offsets remainder keep [] = Inr out \<Longrightarrow>
   out = []"
proof (induction r arbitrary: known_offsets remainder out)
  case 0
  then show ?case
    by (simp add: Let_def split: if_splits)
next
  case (Suc r)
  let ?stride = "strides pattern1 ! Suc r"
  let ?this = "int32 (remainder sdiv ?stride)"
  let ?next = "int32 (remainder - int32 (?stride * ?this))"
  let ?first = "(if ?this > - (dims pattern2 ! Suc r) \<and> ?this < dims pattern1 ! Suc r
                 then FindOffsetsRecursive pattern1 pattern2 r (known_offsets @ [?this])
                        ?next keep []
                 else Inr [])"
  from Suc.prems have nz: "?stride \<noteq> 0"
    by (auto simp: Let_def split: if_splits)
  from Suc.prems nz obtain offsets1 where f: "?first = Inr offsets1"
    by (cases ?first) (simp_all add: Let_def)
  have e: "offsets1 = []"
    using f Suc.IH by (auto split: if_splits)
  show ?case
    using Suc.prems nz f Suc.IH
    unfolding e by (auto simp: Let_def split: if_splits)
qed

lemma FindOffsets_empty:
  "FindOffsets pattern1 pattern2 keep = Inr offsets \<Longrightarrow> offsets = []"
  by (auto simp: FindOffsets_def dest: FindOffsetsRecursive_empty split: if_splits)

lemma ComputeIntersection_pairs_empty:
  "ComputeIntersection_pairs pattern1 pattern2 keep pairs [] = Inr intersection \<Longrightarrow>
   intersection = []"
proof (induction pairs)
  case Nil
  then show ?case by simp
next
  case (Cons pair pairs)
  obtain sub1 sub2 where pair: "pair = (sub1, sub2)" by (cases pair)
  from Cons.prems obtain offsets where o: "FindOffsets sub1 sub2 keep = Inr offsets"
    unfolding pair by (cases "FindOffsets sub1 sub2 keep") simp_all
  have e: "offsets = []" using o by (rule FindOffsets_empty)
  show ?case
    using Cons unfolding pair by (simp add: o e)
qed

lemma ComputeIntersection_empty:
  assumes "ComputeIntersection fresh fuel pattern1_in pattern2_in keep = Inr (ok, intersection)"
    and "FindAllStrides (CanonicalizePattern pattern1_in) (CanonicalizePattern pattern2_in) \<noteq> []"
  shows "intersection = []"
  using assms unfolding ComputeIntersection_def Let_def
  by (auto split: sum.splits option.splits dest: ComputeIntersection_pairs_empty)


lemma length_insert_axis: "length (insert_axis x xs) = Suc (length xs)"
  by (induction xs) simp_all

lemma length_sort_axes: "length (sort_axes xs) = length xs"
  by (induction xs) (simp_all add: length_insert_axis)

lemma FindAllStrides_nonempty:
  assumes "IsValid p" and "0 < num_axes p"
  shows "FindAllStrides (CanonicalizePattern p) q \<noteq> []"
proof -
  have l: "length (dims p) = KALDI_TENSOR_MAX_AXES" "length (strides p) = KALDI_TENSOR_MAX_AXES"
    "num_axes p \<le> KALDI_TENSOR_MAX_AXES"
    using assms(1) by (simp_all add: IsValid_def)
  have "length (axes_of p) = num_axes p"
    using l by (simp add: axes_of_def)
  then have "length (sort_axes (axes_of p)) = num_axes p"
    by (simp add: length_sort_axes)
  then have "take (num_axes (CanonicalizePattern p)) (strides (CanonicalizePattern p)) \<noteq> []"
    using assms(2) by (auto simp: CanonicalizePattern_def Let_def)
  then have "set (take (num_axes (CanonicalizePattern p)) (strides (CanonicalizePattern p)) @
                  take (num_axes q) (strides q)) \<noteq> {}"
    by simp
  then have "set (FindAllStrides (CanonicalizePattern p) q) \<noteq> {}"
    unfolding FindAllStrides_def by simp
  then show ?thesis by auto
qed

lemma NumElements_positive:
  assumes "IsValid p"
  shows "1 \<le> NumElements p"
proof -
  have "\<forall>r \<in> set [0..<KALDI_TENSOR_MAX_AXES].
          1 < dims p ! r \<or> (dims p ! r = 1 \<and> strides p ! r = 0)"
    using assms unfolding IsValid_def list_all_iff by blast
  then have a: "\<forall>r < KALDI_TENSOR_MAX_AXES. 1 \<le> dims p ! r"
    by force
  have n: "num_axes p \<le> KALDI_TENSOR_MAX_AXES"
    using assms by (simp add: IsValid_def)
  have "n \<le> KALDI_TENSOR_MAX_AXES \<Longrightarrow>
        1 \<le> fold (\<lambda>raxis ans. ans * dims p ! raxis) [0..<n] 1" for n
  proof (induction n)
    case 0
    then show ?case by simp
  next
    case (Suc n)
    then have "1 \<le> fold (\<lambda>raxis ans. ans * dims p ! raxis) [0..<n] 1" "1 \<le> dims p ! n"
      using a by simp_all
    then have "1 * 1 \<le> fold (\<lambda>raxis ans. ans * dims p ! raxis) [0..<n] 1 * dims p ! n"
      by (intro mult_mono) simp_all
    then show ?case by simp
  qed
  then show ?thesis
    using n by (simp add: NumElements_def)
qed

lemma PatternIsSubsetOf_never_true:
  assumes "IsValid p" and "0 < num_axes p"
  shows "PatternIsSubsetOf fresh fuel p q \<noteq> Inr True"
proof (cases "ComputeIntersection fresh fuel p q True")
  case (Inl e)
  then show ?thesis by (simp add: PatternIsSubsetOf_def)
next
  case (Inr result)
  obtain ok intersection where r: "result = (ok, intersection)" by (cases result)
  have "intersection = []"
    using Inr FindAllStrides_nonempty [OF assms] unfolding r
    by (rule ComputeIntersection_empty)
  then show ?thesis
    using Inr r NumElements_positive [OF assms(1)] by (simp add: PatternIsSubsetOf_def)
qed

text \<open>
  The memory-index set does not depend on the order of the axes, and an axis of dim 1
  adds nothing to it; so \<^verbatim>\<open>CanonicalizePattern\<close> keeps the set.
\<close>

lemma set_mindexes_Cons:
  "set (mindexes ((d, s) # axes) m) = (\<Union>i \<in> {0..d - 1}. set (mindexes axes (m + i * s)))"
  by simp

lemma set_mindexes_shift:
  "set (mindexes axes (m + c)) = (\<lambda>x. x + c) ` set (mindexes axes m)"
proof (induction axes arbitrary: m)
  case Nil
  show ?case by simp
next
  case (Cons a axes)
  obtain d s where a: "a = (d, s)" by (cases a)
  have e: "m + c + i * s = m + i * s + c" for i
    by simp
  have "set (mindexes axes (m + c + i * s)) = (\<lambda>x. x + c) ` set (mindexes axes (m + i * s))" for i
    unfolding e by (rule Cons)
  then show ?case
    unfolding a set_mindexes_Cons by (simp add: image_UN)
qed





























text \<open>
  The condition on a fresh \<^verbatim>\<open>Pattern\<close> cannot be dropped.  When its unused dims hold 1
  and its unused strides 0, the test of \<^verbatim>\<open>dims[k]\<close> and \<^verbatim>\<open>strides[k]\<close> in
  \<^verbatim>\<open>EnsureAxisSortingPropertyHolds\<close> passes whatever the axis \<open>j\<close> holds, a pattern is
  converted although a stride between two of its axes is not a multiple, and the
  converted pattern covers other memory indexes.  For the valid, broadcastable patterns
  \<open>p\<close> with dim 2 and stride 2 and \<open>q\<close> with dims 2, 2 and strides 3, 4 both calls return
  true, the intersection is empty, and the difference covers 0 and 4 where \<open>p\<close> covers
  0 and 2.
\<close>

lemma partition_fails_for_fresh_with_unit_dims:
  "IsValid (pat1 2 2 0 (- 1)) \<and> IsValid (pat2 2 2 3 4 0 (- 1)) \<and>
   Broadcastable (pat1 2 2 0 (- 1)) (pat2 2 2 3 4 0 (- 1)) \<and>
   MemoryIndexSet (pat1 2 2 0 (- 1)) = {0, 2} \<and>
   ComputeIntersection
     \<lparr>num_axes = 0, dims = [1, 1, 1, 1, 1], strides = [0, 0, 0, 0, 0], offset = 0, code = - 1\<rparr>
     5 (pat1 2 2 0 (- 1)) (pat2 2 2 3 4 0 (- 1)) True = Inr (True, []) \<and>
   ComputeDifference
     \<lparr>num_axes = 0, dims = [1, 1, 1, 1, 1], strides = [0, 0, 0, 0, 0], offset = 0, code = - 1\<rparr>
     5 (pat1 2 2 0 (- 1)) (pat2 2 2 3 4 0 (- 1)) =
     Inr (True, [pat3 1 1 2 2 3 4 0 (- 1)]) \<and>
   MemoryIndexSet (pat3 1 1 2 2 3 4 0 (- 1)) = {0, 4}"
proof -
  have v: "IsValid (pat1 2 2 0 (- 1))" "IsValid (pat2 2 2 3 4 0 (- 1))"
    by (simp_all add: IsValid_def pat1_def pat2_def KALDI_TENSOR_MAX_AXES_def upt_rec)
  have b: "Broadcastable (pat1 2 2 0 (- 1)) (pat2 2 2 3 4 0 (- 1))"
    by (simp add: Broadcastable_def pat1_def pat2_def)
  have s: "MemoryIndexSet (pat1 2 2 0 (- 1)) = {0, 2}"
          "MemoryIndexSet (pat3 1 1 2 2 3 4 0 (- 1)) = {0, 4}"
    by (simp_all add: MemoryIndexSet_def axes_of_def pat1_def pat3_def upto_eval)
  have i: "ComputeIntersection
     \<lparr>num_axes = 0, dims = [1, 1, 1, 1, 1], strides = [0, 0, 0, 0, 0], offset = 0, code = - 1\<rparr>
     5 (pat1 2 2 0 (- 1)) (pat2 2 2 3 4 0 (- 1)) True = Inr (True, [])"
    by code_simp
  have d: "ComputeDifference
     \<lparr>num_axes = 0, dims = [1, 1, 1, 1, 1], strides = [0, 0, 0, 0, 0], offset = 0, code = - 1\<rparr>
     5 (pat1 2 2 0 (- 1)) (pat2 2 2 3 4 0 (- 1)) =
     Inr (True, [pat3 1 1 2 2 3 4 0 (- 1)])"
    by code_simp
  show ?thesis
    using v b s i d by simp
qed

text \<open>
  On patterns with a stride of 1 neither call returns.  For the valid, broadcastable
  patterns with dims 4, 4 and strides 1, 8, \<open>p\<close> at offset 0 and \<open>q\<close> at offset 9, both
  functions reach \<^verbatim>\<open>FindOffsetsRecursive\<close>, which finds an offset and calls \<^verbatim>\<open>back()\<close>
  on the empty \<^verbatim>\<open>offsets_out\<close>, whatever a fresh \<^verbatim>\<open>Pattern\<close> holds.
\<close>

lemma set_algebra_undefined_at_unit_stride:
  "IsValid (pat2 4 4 1 8 0 c) \<and> IsValid (pat2 4 4 1 8 9 c) \<and>
   Broadcastable (pat2 4 4 1 8 0 c) (pat2 4 4 1 8 9 c) \<and>
   ComputeIntersection
     \<lparr>num_axes = n, dims = [a0, a1, a2, a3, a4], strides = [b0, b1, b2, b3, b4],
      offset = m, code = k\<rparr> 5 (pat2 4 4 1 8 0 c) (pat2 4 4 1 8 9 c) True =
     Inl UndefinedBehaviour \<and>
   ComputeDifference
     \<lparr>num_axes = n, dims = [a0, a1, a2, a3, a4], strides = [b0, b1, b2, b3, b4],
      offset = m, code = k\<rparr> 5 (pat2 4 4 1 8 0 c) (pat2 4 4 1 8 9 c) =
     Inl UndefinedBehaviour"
proof -
  let ?fresh = "\<lparr>num_axes = n, dims = [a0, a1, a2, a3, a4], strides = [b0, b1, b2, b3, b4],
      offset = m, code = k\<rparr>"
  have v: "IsValid (pat2 4 4 1 8 0 c)" "IsValid (pat2 4 4 1 8 9 c)"
    by (simp_all add: IsValid_def pat2_def KALDI_TENSOR_MAX_AXES_def upt_rec)
  have b: "Broadcastable (pat2 4 4 1 8 0 c) (pat2 4 4 1 8 9 c)"
    by (simp add: Broadcastable_def pat2_def)
  have s: "FindAllStrides (CanonicalizePattern (pat2 4 4 1 8 0 c))
             (CanonicalizePattern (pat2 4 4 1 8 9 c)) = [1, 8]"
    by (simp add: set_algebra_defs pat2_def)
  have c1: "ConvertPatternStrides ?fresh 5 (CanonicalizePattern (pat2 4 4 1 8 0 c)) [1, 8] =
     Inr (Some [\<lparr>num_axes = 2, dims = [4, 4, a2, a3, a4], strides = [1, 8, b2, b3, b4],
                  offset = 0, code = - 1\<rparr>])"
    by (simp add: set_algebra_defs pat2_def eval_nat_numeral)
  have c2: "ConvertPatternStrides ?fresh 5 (CanonicalizePattern (pat2 4 4 1 8 9 c)) [1, 8] =
     Inr (Some [\<lparr>num_axes = 2, dims = [4, 4, a2, a3, a4], strides = [1, 8, b2, b3, b4],
                  offset = 9, code = - 1\<rparr>])"
    by (simp add: set_algebra_defs pat2_def eval_nat_numeral)
  have f: "FindOffsets
      \<lparr>num_axes = 2, dims = [4, 4, a2, a3, a4], strides = [1, 8, b2, b3, b4],
                  offset = 0, code = - 1\<rparr>
      \<lparr>num_axes = 2, dims = [4, 4, a2, a3, a4], strides = [1, 8, b2, b3, b4],
                  offset = 9, code = - 1\<rparr> True = Inl UndefinedBehaviour"
    by (simp add: FindOffsets_def eval_nat_numeral signed_divide_int_def int32_def Let_def)
  have i: "ComputeIntersection ?fresh 5 (pat2 4 4 1 8 0 c) (pat2 4 4 1 8 9 c) True =
     Inl UndefinedBehaviour"
    unfolding ComputeIntersection_def Let_def s c1 c2 by (simp add: f)
  have d: "ComputeDifference ?fresh 5 (pat2 4 4 1 8 0 c) (pat2 4 4 1 8 9 c) =
     Inl UndefinedBehaviour"
    unfolding ComputeDifference_def Let_def s c1 c2
    by (simp add: ComputeDifference_piece_def f int32_def)
  show ?thesis
    using v b i d by simp
qed

text \<open>
  \<^verbatim>\<open>SubtractHyperrectangles\<close>, called by itself on the index tuples of that \<open>p\<close> and
  the part it shares with that \<open>q\<close>, answers the rectangles \<open>[(0,1),(0,4)]\<close> and
  \<open>[(1,0),(0,1)]\<close>; the second is empty, and the index tuple \<open>(1,0)\<close>, which is in \<open>p\<close>
  and not in the shared part, is in neither.
\<close>

lemma SubtractHyperrectangles_loses_tuples:
  "GetFullHyperrectangleOfPattern (pat2 4 4 1 8 0 c) = [(0, 4), (0, 4)] \<and>
   OffsetToHyperrectangle (pat2 4 4 1 8 0 c) (pat2 4 4 1 8 9 c) [1, 1] =
     Inr [(1, 4), (1, 4)] \<and>
   SubtractHyperrectangles [(0, 4), (0, 4)] [(1, 4), (1, 4)] 0 [] =
     Inr [[(0, 1), (0, 4)], [(1, 0), (0, 1)]] \<and>
   [1, 0] \<in> set (index_tuples [(0, 4), (0, 4)]) - set (index_tuples [(1, 4), (1, 4)]) \<and>
   [1, 0] \<notin> set (index_tuples [(0, 1), (0, 4)]) \<union> set (index_tuples [(1, 0), (0, 1)])"
proof -
  have g: "GetFullHyperrectangleOfPattern (pat2 4 4 1 8 0 c) = [(0, 4), (0, 4)]"
    by (simp add: GetFullHyperrectangleOfPattern_def pat2_def upt_rec)
  have h: "OffsetToHyperrectangle (pat2 4 4 1 8 0 c) (pat2 4 4 1 8 9 c) [1, 1] =
     Inr [(1, 4), (1, 4)]"
    by (simp add: OffsetToHyperrectangle_def pat2_def upt_rec)
  have u: "SubtractHyperrectangles [(0, 4), (0, 4)] [(1, 4), (1, 4)] 0 [] =
     Inr [[(0, 1), (0, 4)], [(1, 0), (0, 1)]]"
    by (simp add: SubtractHyperrectangles.simps)
  have t: "[1, 0] \<in> set (index_tuples [(0, 4), (0, 4)]) - set (index_tuples [(1, 4), (1, 4)])"
          "[1, 0] \<notin> set (index_tuples [(0, 1), (0, 4)]) \<union> set (index_tuples [(1, 0), (0, 1)])"
    by (simp_all add: upto_eval)
  show ?thesis
    using g h u t by simp
qed

text \<open>
  C2.  The claim: \<^verbatim>\<open>ComputeIntersection\<close> returns false only when the conversion to
  the common strides fails for both inputs, and returns true when at least one input
  converts.  The code tests \<^verbatim>\<open>!ConvertPatternStrides(pattern1, ...) ||
  !ConvertPatternStrides(pattern2, ...)\<close> and returns false when that holds, and nowhere
  else: it returns false, with an empty list, exactly when there is a stride and the
  conversion of the first pattern fails, or succeeds and the conversion of the second
  fails.
\<close>

theorem C2_amended:
  "ComputeIntersection fresh fuel pattern1_in pattern2_in keep_all_patterns = Inr (False, out)
   \<longleftrightarrow>
   out = [] \<and>
   FindAllStrides (CanonicalizePattern pattern1_in) (CanonicalizePattern pattern2_in) \<noteq> [] \<and>
   (ConvertPatternStrides fresh fuel (CanonicalizePattern pattern1_in)
      (FindAllStrides (CanonicalizePattern pattern1_in) (CanonicalizePattern pattern2_in)) =
      Inr None \<or>
    (\<exists>patterns1.
       ConvertPatternStrides fresh fuel (CanonicalizePattern pattern1_in)
         (FindAllStrides (CanonicalizePattern pattern1_in) (CanonicalizePattern pattern2_in)) =
         Inr (Some patterns1)) \<and>
    ConvertPatternStrides fresh fuel (CanonicalizePattern pattern2_in)
      (FindAllStrides (CanonicalizePattern pattern1_in) (CanonicalizePattern pattern2_in)) =
      Inr None)"
  unfolding ComputeIntersection_def Let_def
  by (auto split: sum.splits option.splits)

text \<open>The theorem at the patterns of the counterexample below.\<close>

theorem C2_witness:
  "ComputeIntersection fresh0 5 (pat1 4 3 0 (- 1)) (pat1 4 2 0 (- 1)) True = Inr (False, []) \<and>
   FindAllStrides (CanonicalizePattern (pat1 4 3 0 (- 1)))
     (CanonicalizePattern (pat1 4 2 0 (- 1))) = [2, 3] \<and>
   ConvertPatternStrides fresh0 5 (CanonicalizePattern (pat1 4 2 0 (- 1))) [2, 3] = Inr None"
proof -
  have s: "FindAllStrides (CanonicalizePattern (pat1 4 3 0 (- 1)))
             (CanonicalizePattern (pat1 4 2 0 (- 1))) = [2, 3]"
    by (simp add: set_algebra_defs pat1_def)
  have c1: "ConvertPatternStrides fresh0 5 (CanonicalizePattern (pat1 4 3 0 (- 1))) [2, 3] =
     Inr (Some [\<lparr>num_axes = 2, dims = [1, 4, 0, 0, 0], strides = [2, 3, 0, 0, 0],
                  offset = 0, code = - 1\<rparr>])"
    by (simp add: set_algebra_defs pat1_def fresh0_def eval_nat_numeral)
  have c2: "ConvertPatternStrides fresh0 5 (CanonicalizePattern (pat1 4 2 0 (- 1))) [2, 3] =
     Inr None"
    by (simp add: set_algebra_defs pat1_def fresh0_def eval_nat_numeral)
  show ?thesis
    using C2_amended [of fresh0 5 "pat1 4 3 0 (- 1)" "pat1 4 2 0 (- 1)" True "[]"]
    unfolding s by (simp add: c1 c2)
qed

text \<open>
  The claim as stated fails on the valid, broadcastable patterns with dim 4, \<open>p1\<close> with
  stride 3 and \<open>p2\<close> with stride 2, both at offset 0, with \<open>fresh0\<close> for a fresh
  \<^verbatim>\<open>Pattern\<close>.  The common strides are 2 and 3.  \<open>p1\<close> converts: its axis of stride 2 has
  dim 1.  For \<open>p2\<close> the axis of stride 3 lies below \<open>2 * 4\<close>, the test fails and the
  conversion returns false, and so does \<^verbatim>\<open>ComputeIntersection\<close>.
\<close>

theorem C2_counterexample:
  "IsValid (pat1 4 3 0 (- 1)) \<and> IsValid (pat1 4 2 0 (- 1)) \<and>
   Broadcastable (pat1 4 3 0 (- 1)) (pat1 4 2 0 (- 1)) \<and>
   ConvertPatternStrides fresh0 5 (CanonicalizePattern (pat1 4 3 0 (- 1)))
     (FindAllStrides (CanonicalizePattern (pat1 4 3 0 (- 1)))
        (CanonicalizePattern (pat1 4 2 0 (- 1)))) =
     Inr (Some [\<lparr>num_axes = 2, dims = [1, 4, 0, 0, 0], strides = [2, 3, 0, 0, 0],
                  offset = 0, code = - 1\<rparr>]) \<and>
   ComputeIntersection fresh0 5 (pat1 4 3 0 (- 1)) (pat1 4 2 0 (- 1)) True = Inr (False, [])"
proof -
  have v: "IsValid (pat1 4 3 0 (- 1))" "IsValid (pat1 4 2 0 (- 1))"
    by (simp_all add: IsValid_def pat1_def KALDI_TENSOR_MAX_AXES_def upt_rec)
  have b: "Broadcastable (pat1 4 3 0 (- 1)) (pat1 4 2 0 (- 1))"
    by (simp add: Broadcastable_def pat1_def)
  have s: "FindAllStrides (CanonicalizePattern (pat1 4 3 0 (- 1)))
             (CanonicalizePattern (pat1 4 2 0 (- 1))) = [2, 3]"
    by (simp add: set_algebra_defs pat1_def)
  have c1: "ConvertPatternStrides fresh0 5 (CanonicalizePattern (pat1 4 3 0 (- 1))) [2, 3] =
     Inr (Some [\<lparr>num_axes = 2, dims = [1, 4, 0, 0, 0], strides = [2, 3, 0, 0, 0],
                  offset = 0, code = - 1\<rparr>])"
    by (simp add: set_algebra_defs pat1_def fresh0_def eval_nat_numeral)
  have c2: "ConvertPatternStrides fresh0 5 (CanonicalizePattern (pat1 4 2 0 (- 1))) [2, 3] =
     Inr None"
    by (simp add: set_algebra_defs pat1_def fresh0_def eval_nat_numeral)
  have i: "ComputeIntersection fresh0 5 (pat1 4 3 0 (- 1)) (pat1 4 2 0 (- 1)) True =
     Inr (False, [])"
    unfolding ComputeIntersection_def Let_def s c1 c2 by simp
  show ?thesis
    using v b c1 i unfolding s by simp
qed

text \<open>
  C7.  The claim: \<^verbatim>\<open>PatternIsSubsetOf(p, p)\<close> returns true for every valid pattern.  On
  the valid pattern with dim 3, stride 2 and offset 0 it returns false, whatever a fresh
  \<^verbatim>\<open>Pattern\<close> holds: \<^verbatim>\<open>FindOffsets\<close> hands the flag \<^verbatim>\<open>keep_all_offsets\<close>, which is
  true, to \<^verbatim>\<open>FindOffsetsRecursive\<close> as the remainder 1, the stride 2 does not divide 1,
  no offset is found, the intersection is empty and its element count 0 is not 3.
\<close>

theorem C7_subset_of_itself_false:
  "IsValid (pat1 3 2 0 c) \<and>
   PatternIsSubsetOf
     \<lparr>num_axes = n, dims = [a0, a1, a2, a3, a4], strides = [b0, b1, b2, b3, b4],
      offset = m, code = k\<rparr> fuel (pat1 3 2 0 c) (pat1 3 2 0 c) = Inr False"
proof -
  have v: "IsValid (pat1 3 2 0 c)"
    by (simp add: IsValid_def pat1_def KALDI_TENSOR_MAX_AXES_def upt_rec)
  have e: "PatternIsSubsetOf
     \<lparr>num_axes = n, dims = [a0, a1, a2, a3, a4], strides = [b0, b1, b2, b3, b4],
      offset = m, code = k\<rparr> fuel (pat1 3 2 0 c) (pat1 3 2 0 c) = Inr False"
    by (simp add: PatternIsSubsetOf_def ComputeIntersection_def CanonicalizePattern_def
        axes_of_def FindAllStrides_def ConvertPatternStrides_def
        ConvertPatternStridesLazily_def ConvertPatternStridesLazily_step_def FindOffsets_def
        NumElements_def pat1_def
        KALDI_TENSOR_MAX_AXES_def Let_def signed_divide_int_def int32_def)
  show ?thesis
    using v e by simp
qed

lemma PatternsIntersect_draws_never_false:
  "PatternsIntersect_draws contains ms \<noteq> Inr (Some False)"
proof (induction ms)
  case Nil
  show ?case by simp
next
  case (Cons m ms)
  show ?case
  proof (cases "contains m")
    case (Inl e)
    then show ?thesis by simp
  next
    case (Inr found)
    then show ?thesis using Cons by (cases found) simp_all
  qed
qed

text \<open>
  C10.  The sampling stage of \<^verbatim>\<open>PatternsIntersect\<close> returns only \<^verbatim>\<open>true\<close>: no run of
  it makes the function return false; when every draw misses, the rest of the function
  is \<^verbatim>\<open>PatternsIntersectSlow\<close>; and when the code from the sampling stage on returns
  false, every draw has missed and the false is the answer of
  \<^verbatim>\<open>PatternsIntersectSlow\<close>.
\<close>

theorem C10_sampling_only_true:
  "PatternsIntersect_sampling RandInt pattern1 pattern2 \<noteq> Inr (Some False) \<and>
   (PatternsIntersect_sampling RandInt pattern1 pattern2 = Inr None \<longrightarrow>
      PatternsIntersect_fallback RandInt pattern1 pattern2 =
      PatternsIntersectSlow pattern1 pattern2) \<and>
   (PatternsIntersect_fallback RandInt pattern1 pattern2 = Inr False \<longrightarrow>
      PatternsIntersect_sampling RandInt pattern1 pattern2 = Inr None \<and>
      PatternsIntersectSlow pattern1 pattern2 = Inr False)"
proof -
  have n: "PatternsIntersect_sampling RandInt pattern1 pattern2 \<noteq> Inr (Some False)"
    by (simp add: PatternsIntersect_sampling_def PatternsIntersect_draws_never_false)
  show ?thesis
  proof (cases "PatternsIntersect_sampling RandInt pattern1 pattern2")
    case (Inl e)
    then show ?thesis by (simp add: PatternsIntersect_fallback_def)
  next
    case (Inr answer)
    show ?thesis
    proof (cases answer)
      case None
      then show ?thesis using Inr by (simp add: PatternsIntersect_fallback_def)
    next
      case (Some b)
      then have "b = True" using n Inr by (cases b) simp_all
      then show ?thesis using Inr Some by (simp add: PatternsIntersect_fallback_def)
    qed
  qed
qed


text \<open>
  The theorem at the patterns with dim 3 and stride 2 at the offsets 0 and 1, which do
  not meet, with every draw giving index 0.
\<close>

theorem C10_witness:
  "PatternsIntersect_sampling (\<lambda>i raxis. 0) (pat1 3 2 0 (- 1)) (pat1 3 2 1 (- 1)) = Inr None \<and>
   PatternsIntersect_fallback (\<lambda>i raxis. 0) (pat1 3 2 0 (- 1)) (pat1 3 2 1 (- 1)) = Inr False \<and>
   PatternsIntersectSlow (pat1 3 2 0 (- 1)) (pat1 3 2 1 (- 1)) = Inr False"
proof -
  have c: "IsCanonical (pat1 3 2 0 (- 1))"
    by (simp add: IsCanonical_def IsValid_def pat1_def KALDI_TENSOR_MAX_AXES_def upt_rec)
  have k: "PatternContains (pat1 3 2 0 (- 1)) 1 = Inr False"
    by (simp add: PatternContains_def c)
       (simp add: pat1_def signed_divide_int_def uint32_def int32_def)
  have r: "RandomMemoryIndex (\<lambda>raxis. 0) (pat1 3 2 1 (- 1)) = 1"
    by (simp add: RandomMemoryIndex_def pat1_def int32_def)
  have s: "PatternsIntersect_sampling (\<lambda>i raxis. 0) (pat1 3 2 0 (- 1)) (pat1 3 2 1 (- 1)) =
           Inr None"
    by (simp add: PatternsIntersect_sampling_def r k num_draws_def upt_rec)
       (simp add: NumElements_def pat1_def)
  have w: "PatternsIntersectSlow (pat1 3 2 0 (- 1)) (pat1 3 2 1 (- 1)) = Inr False"
    by code_simp
  have t: "PatternsIntersect_fallback (\<lambda>i raxis. 0) (pat1 3 2 0 (- 1)) (pat1 3 2 1 (- 1)) =
           PatternsIntersectSlow (pat1 3 2 0 (- 1)) (pat1 3 2 1 (- 1))"
    using C10_sampling_only_true [of "\<lambda>i raxis. 0" "pat1 3 2 0 (- 1)" "pat1 3 2 1 (- 1)"] s
    by blast
  show ?thesis
    using s w t by simp
qed

end
